theory Spec2Isabelle
  imports Complex_Main "HOL-Library.Word" "HOL-Library.Monad_Syntax" "HOL-Library.Multiset"
    "HOL-Library.Product_Lexorder"
begin

section \<open>JavaScript values used by the converter\<close>

text \<open>
  Strings are byte strings (Latin-1): \<open>length\<close>, \<open>slice\<close> and \<open>split('')\<close> count
  characters as the source's code units do on such text. Case conversion is the ASCII one.

  A JavaScript number is \<open>NaN\<close>, an infinity or a real: a double is read as the exact
  value it stands for (no rounding, and one zero only, taken as positive where a sign of
  zero would matter). Numbers beyond the range or the precision of a double (overflow
  to an infinity, results that differ from the exact one in the last bits) are outside
  this model.
\<close>

datatype jsnum = NaN | Num real | PInf | NInf

fun jneg :: "jsnum \<Rightarrow> jsnum" where
  "jneg NaN = NaN"
| "jneg (Num a) = Num (- a)"
| "jneg PInf = NInf"
| "jneg NInf = PInf"

fun jadd :: "jsnum \<Rightarrow> jsnum \<Rightarrow> jsnum" where
  "jadd NaN b = NaN"
| "jadd a NaN = NaN"
| "jadd (Num a) (Num b) = Num (a + b)"
| "jadd PInf NInf = NaN"
| "jadd NInf PInf = NaN"
| "jadd PInf b = PInf"
| "jadd NInf b = NInf"
| "jadd a PInf = PInf"
| "jadd a NInf = NInf"

definition jsub :: "jsnum \<Rightarrow> jsnum \<Rightarrow> jsnum" where
  "jsub a b = jadd a (jneg b)"

definition signed :: "bool \<Rightarrow> jsnum" where
  \<comment> \<open>the infinity of a sign (\<open>True\<close> is positive)\<close>
  "signed pos = (if pos then PInf else NInf)"

fun jmul :: "jsnum \<Rightarrow> jsnum \<Rightarrow> jsnum" where
  "jmul NaN b = NaN"
| "jmul a NaN = NaN"
| "jmul (Num a) (Num b) = Num (a * b)"
| "jmul (Num a) PInf = (if a = 0 then NaN else signed (a > 0))"
| "jmul (Num a) NInf = (if a = 0 then NaN else signed (a < 0))"
| "jmul PInf (Num b) = (if b = 0 then NaN else signed (b > 0))"
| "jmul NInf (Num b) = (if b = 0 then NaN else signed (b < 0))"
| "jmul PInf PInf = PInf"
| "jmul PInf NInf = NInf"
| "jmul NInf PInf = NInf"
| "jmul NInf NInf = PInf"

fun jdiv :: "jsnum \<Rightarrow> jsnum \<Rightarrow> jsnum" where
  "jdiv NaN b = NaN"
| "jdiv a NaN = NaN"
| "jdiv (Num a) (Num b) = (if b \<noteq> 0 then Num (a / b) else if a = 0 then NaN else signed (a > 0))"
| "jdiv (Num a) PInf = Num 0"
| "jdiv (Num a) NInf = Num 0"
| "jdiv PInf (Num b) = signed (b \<ge> 0)"
| "jdiv NInf (Num b) = signed (b < 0)"
| "jdiv PInf PInf = NaN"
| "jdiv PInf NInf = NaN"
| "jdiv NInf PInf = NaN"
| "jdiv NInf NInf = NaN"

fun jlt :: "jsnum \<Rightarrow> jsnum \<Rightarrow> bool" where
  "jlt NaN b = False"
| "jlt a NaN = False"
| "jlt (Num a) (Num b) = (a < b)"
| "jlt PInf b = False"
| "jlt a NInf = False"
| "jlt NInf b = True"
| "jlt a PInf = True"

definition jgt :: "jsnum \<Rightarrow> jsnum \<Rightarrow> bool" where
  "jgt a b = jlt b a"

definition jge :: "jsnum \<Rightarrow> jsnum \<Rightarrow> bool" where
  \<comment> \<open>\<open>a >= b\<close>: false as soon as one side is \<open>NaN\<close>\<close>
  "jge a b = (a \<noteq> NaN \<and> b \<noteq> NaN \<and> \<not> jlt a b)"

definition jmin :: "jsnum \<Rightarrow> jsnum \<Rightarrow> jsnum" where
  \<comment> \<open>\<open>Math.min\<close>\<close>
  "jmin a b = (if a = NaN \<or> b = NaN then NaN else if jlt b a then b else a)"

fun jabs :: "jsnum \<Rightarrow> jsnum" where
  "jabs NaN = NaN"
| "jabs (Num a) = Num \<bar>a\<bar>"
| "jabs PInf = PInf"
| "jabs NInf = PInf"

definition falsyNum :: "jsnum \<Rightarrow> bool" where
  "falsyNum a = (a = NaN \<or> a = Num 0)"

definition orNum :: "jsnum \<Rightarrow> jsnum \<Rightarrow> jsnum" where
  \<comment> \<open>\<open>a || d\<close>\<close>
  "orNum a d = (if falsyNum a then d else a)"

definition orZero :: "jsnum \<Rightarrow> jsnum" where
  \<comment> \<open>\<open>a || 0\<close>\<close>
  "orZero a = orNum a (Num 0)"

definition startsWith :: "string \<Rightarrow> string \<Rightarrow> bool" where
  "startsWith s p = (take (length p) s = p)"

fun includesStr :: "string \<Rightarrow> string \<Rightarrow> bool" where
  "includesStr [] sub = (sub = [])"
| "includesStr (c # cs) sub = (startsWith (c # cs) sub \<or> includesStr cs sub)"

definition inRange :: "char \<Rightarrow> char \<Rightarrow> char \<Rightarrow> bool" where
  \<comment> \<open>a range \<open>lo-hi\<close> of a character class, by character code\<close>
  "inRange lo hi c = ((of_char lo :: nat) \<le> of_char c \<and> (of_char c :: nat) \<le> of_char hi)"

definition isDigit :: "char \<Rightarrow> bool" where
  \<comment> \<open>the class \<open>\d\<close>\<close>
  "isDigit c = inRange CHR ''0'' CHR ''9'' c"

definition isDigitDot :: "char \<Rightarrow> bool" where
  \<comment> \<open>the class \<open>[\d\.]\<close>\<close>
  "isDigitDot c = (isDigit c \<or> c = CHR ''.'')"

definition isHexDigit :: "char \<Rightarrow> bool" where
  \<comment> \<open>the class \<open>[0-9a-fA-F]\<close>\<close>
  "isHexDigit c = (isDigit c \<or> inRange CHR ''a'' CHR ''f'' c \<or> inRange CHR ''A'' CHR ''F'' c)"

definition isSpace :: "char \<Rightarrow> bool" where
  \<comment> \<open>\<open>\s\<close> and the characters \<open>trim\<close> removes, among the bytes: TAB, LF, VT, FF, CR, space, NBSP\<close>
  "isSpace c = (of_char c \<in> {9, 10, 11, 12, 13, 32, 160 :: nat})"

definition isLineTerminator :: "char \<Rightarrow> bool" where
  \<comment> \<open>what \<open>.\<close> does not match\<close>
  "isLineTerminator c = (of_char c \<in> {10, 13 :: nat})"

definition upperChar :: "char \<Rightarrow> char" where
  "upperChar c = (if inRange CHR ''a'' CHR ''z'' c then char_of (of_char c - (32 :: nat)) else c)"

definition lowerChar :: "char \<Rightarrow> char" where
  "lowerChar c = (if inRange CHR ''A'' CHR ''Z'' c then char_of (of_char c + (32 :: nat)) else c)"

definition toUpperCase :: "string \<Rightarrow> string" where
  "toUpperCase s = map upperChar s"

definition toLowerCase :: "string \<Rightarrow> string" where
  "toLowerCase s = map lowerChar s"

definition trimStart :: "string \<Rightarrow> string" where
  "trimStart s = dropWhile isSpace s"

definition trimEnd :: "string \<Rightarrow> string" where
  "trimEnd s = rev (dropWhile isSpace (rev s))"

definition trim :: "string \<Rightarrow> string" where
  "trim s = trimEnd (trimStart s)"

text \<open>\<open>str.match(/[cls]+/g)\<close>: the maximal runs of characters of a class, left to right
  (the empty list stands for \<open>null\<close>).\<close>

fun matchRuns :: "(char \<Rightarrow> bool) \<Rightarrow> string \<Rightarrow> string \<Rightarrow> string list" where
  "matchRuns P acc [] = (if acc = [] then [] else [acc])"
| "matchRuns P acc (c # cs) =
     (if P c then matchRuns P (acc @ [c]) cs
      else (if acc = [] then [] else [acc]) @ matchRuns P [] cs)"

definition matchAll :: "(char \<Rightarrow> bool) \<Rightarrow> string \<Rightarrow> string list" where
  "matchAll P s = matchRuns P [] s"

subsection \<open>parseInt and parseFloat\<close>

definition digitVal :: "char \<Rightarrow> nat" where
  "digitVal c =
     (if isDigit c then of_char c - 48
      else if inRange CHR ''a'' CHR ''f'' c then of_char c - 87
      else of_char c - 55)"

definition digitsVal :: "int \<Rightarrow> string \<Rightarrow> int" where
  "digitsVal base ds = foldl (\<lambda>n c. n * base + int (digitVal c)) 0 ds"

definition signOf :: "string \<Rightarrow> int \<times> string" where
  "signOf s =
     (case s of
        c # cs \<Rightarrow> (if c = CHR ''-'' then (- 1, cs) else if c = CHR ''+'' then (1, cs) else (1, s))
      | [] \<Rightarrow> (1, s))"

definition parseInt :: "string \<Rightarrow> int option" where
  \<comment> \<open>\<open>parseInt(s)\<close> with no radix; \<open>None\<close> is \<open>NaN\<close>\<close>
  "parseInt s =
     (let (sg, t) = signOf (trimStart s) in
      if startsWith t ''0x'' \<or> startsWith t ''0X'' then
        (let ds = takeWhile isHexDigit (drop 2 t) in
         if ds = [] then None else Some (sg * digitsVal 16 ds))
      else
        (let ds = takeWhile isDigit t in
         if ds = [] then None else Some (sg * digitsVal 10 ds)))"

definition expPart :: "string \<Rightarrow> int" where
  \<comment> \<open>the exponent of a decimal literal, 0 when the text at hand is not an exponent\<close>
  "expPart t =
     (case t of
        c # cs \<Rightarrow>
          (if c = CHR ''e'' \<or> c = CHR ''E'' then
             (let (sg, u) = signOf cs; ds = takeWhile isDigit u in
              if ds = [] then 0 else sg * digitsVal 10 ds)
           else 0)
      | [] \<Rightarrow> 0)"

definition parseFloat :: "string \<Rightarrow> jsnum" where
  \<comment> \<open>the longest prefix that is a decimal literal, after leading white space\<close>
  "parseFloat s =
     (let (sg, t) = signOf (trimStart s);
          ip = takeWhile isDigit t;
          t2 = dropWhile isDigit t;
          fp = (case t2 of c # cs \<Rightarrow> (if c = CHR ''.'' then takeWhile isDigit cs else []) | [] \<Rightarrow> []);
          t3 = (case t2 of c # cs \<Rightarrow> (if c = CHR ''.'' then dropWhile isDigit cs else t2) | [] \<Rightarrow> [])
      in if startsWith t ''Infinity'' then signed (sg = 1)
         else if ip = [] \<and> fp = [] then NaN
         else Num (real_of_int sg * (real_of_int (digitsVal 10 ip) + real_of_int (digitsVal 10 fp) / 10 ^ length fp)
                   * 10 powi expPart t3))"

subsection \<open>32-bit shifts and radix-16 printing\<close>

definition shl32 :: "int option \<Rightarrow> nat \<Rightarrow> int" where
  \<comment> \<open>\<open>x << n\<close>: the operand is taken to a signed 32-bit integer (\<open>NaN\<close> to 0)\<close>
  "shl32 x n = sint (push_bit n (word_of_int (case x of None \<Rightarrow> 0 | Some i \<Rightarrow> i) :: 32 word))"

definition hexChar :: "int \<Rightarrow> char" where
  \<comment> \<open>the digit of a value below 16\<close>
  "hexChar d = ''0123456789abcdef'' ! nat d"

function hexDigits :: "int \<Rightarrow> string" where
  \<comment> \<open>the digits of a natural number in base 16\<close>
  "hexDigits n = (if n < 16 then [hexChar n] else hexDigits (n div 16) @ [hexChar (n mod 16)])"
  by pat_completeness auto
termination
  by (relation "measure nat") auto

declare hexDigits.simps [simp del]

definition toString16 :: "int option \<Rightarrow> string" where
  \<comment> \<open>\<open>Number.prototype.toString(16)\<close> on an integer value or \<open>NaN\<close>\<close>
  "toString16 x =
     (case x of
        None \<Rightarrow> ''NaN''
      | Some i \<Rightarrow> (if i < 0 then CHR ''-'' # hexDigits (- i) else hexDigits i))"

section \<open>Colours (src/utils.js)\<close>

record colorObj =
  hex :: "string option"
  opacity :: jsnum

definition transparentColor :: colorObj where
  "transparentColor = \<lparr>hex = None, opacity = Num 0\<rparr>"

definition parseColor :: "string \<Rightarrow> colorObj" where
  "parseColor str =
     (if str = [] \<or> str = ''transparent'' \<or> startsWith str ''rgba(0, 0, 0, 0)'' then transparentColor
      else if startsWith str ''#'' then
        (let h = drop 1 str;
             h' = (if length h = 3 then concat (map (\<lambda>c. [c, c]) h) else h)
         in \<lparr>hex = Some (toUpperCase h'), opacity = Num 1\<rparr>)
      else
        (let m = matchAll isDigitDot str in
         if length m \<ge> 3 then
           (let r = parseInt (m ! 0);
                g = parseInt (m ! 1);
                b = parseInt (m ! 2);
                a = (if length m > 3 then parseFloat (m ! 3) else Num 1);
                n = (case b of
                       None \<Rightarrow> None
                     | Some bv \<Rightarrow> Some (shl32 (Some 1) 24 + shl32 r 16 + shl32 g 8 + bv))
            in \<lparr>hex = Some (toUpperCase (drop 1 (toString16 n))), opacity = a\<rparr>)
         else transparentColor))"


subsection \<open>Math.atan2, Math.sqrt, Math.round\<close>

definition atan2r :: "real \<Rightarrow> real \<Rightarrow> real" where
  \<comment> \<open>\<open>atan2(y, x)\<close> on finite arguments, in radians\<close>
  "atan2r y x =
     (if x > 0 then arctan (y / x)
      else if x < 0 then (if y \<ge> 0 then arctan (y / x) + pi else arctan (y / x) - pi)
      else if y > 0 then pi / 2
      else if y < 0 then - (pi / 2)
      else 0)"

fun atan2 :: "jsnum \<Rightarrow> jsnum \<Rightarrow> jsnum" where
  "atan2 NaN x = NaN"
| "atan2 y NaN = NaN"
| "atan2 (Num y) (Num x) = Num (atan2r y x)"
| "atan2 (Num y) PInf = Num 0"
| "atan2 (Num y) NInf = Num (if y \<ge> 0 then pi else - pi)"
| "atan2 PInf (Num x) = Num (pi / 2)"
| "atan2 NInf (Num x) = Num (- (pi / 2))"
| "atan2 PInf PInf = Num (pi / 4)"
| "atan2 PInf NInf = Num (3 * pi / 4)"
| "atan2 NInf PInf = Num (- (pi / 4))"
| "atan2 NInf NInf = Num (- (3 * pi / 4))"

fun jsqrt :: "jsnum \<Rightarrow> jsnum" where
  "jsqrt NaN = NaN"
| "jsqrt (Num a) = (if a < 0 then NaN else Num (sqrt a))"
| "jsqrt PInf = PInf"
| "jsqrt NInf = NaN"

fun jround :: "jsnum \<Rightarrow> jsnum" where
  \<comment> \<open>\<open>Math.round\<close>: to the nearest integer, halves upwards\<close>
  "jround (Num a) = Num (of_int \<lfloor>a + 1 / 2\<rfloor>)"
| "jround a = a"

definition degrees :: "jsnum \<Rightarrow> jsnum" where
  \<comment> \<open>\<open>a * (180 / Math.PI)\<close>\<close>
  "degrees a = jmul a (Num (180 / pi))"

section \<open>Style helpers (src/utils.js)\<close>

text \<open>A computed style is read by property name, as \<open>style.color\<close> reads a
  \<open>CSSStyleDeclaration\<close>; every property is a string.\<close>

type_synonym style = "string \<Rightarrow> string"

definition orStr :: "string \<Rightarrow> string \<Rightarrow> string" where
  \<comment> \<open>\<open>a || b\<close> on strings: the empty string is falsy\<close>
  "orStr a b = (if a \<noteq> [] then a else b)"

definition orDefault :: "string option \<Rightarrow> string \<Rightarrow> string" where
  \<comment> \<open>\<open>h || d\<close> on a string or \<open>null\<close>, as in \<open>colorObj.hex || "000000"\<close>\<close>
  "orDefault h d = (case h of None \<Rightarrow> d | Some v \<Rightarrow> orStr v d)"

subsection \<open>getGradientFallbackColor\<close>

fun firstHexColor :: "string \<Rightarrow> string option" where
  \<comment> \<open>\<open>match(/#(?:[0-9a-fA-F]{3}){1,2}/)\<close>: the first \<open>#\<close> with three hex digits after it,
      taken with six digits when there are six\<close>
  "firstHexColor [] = None"
| "firstHexColor (c # cs) =
     (let h = takeWhile isHexDigit cs in
      if c = CHR ''#'' \<and> length h \<ge> 6 then Some (c # take 6 h)
      else if c = CHR ''#'' \<and> length h \<ge> 3 then Some (c # take 3 h)
      else firstHexColor cs)"

definition rgbCallAt :: "string \<Rightarrow> string option" where
  \<comment> \<open>\<open>rgba?\(.*?\)\<close> at the start of the text: up to the first \<open>)\<close> of the line\<close>
  "rgbCallAt s =
     (let n = (if startsWith s ''rgba('' then 5 else if startsWith s ''rgb('' then 4 else 0);
          body = takeWhile (\<lambda>c. c \<noteq> CHR '')'' \<and> \<not> isLineTerminator c) (drop n s)
      in if n \<noteq> 0 \<and> startsWith (drop (n + length body) s) '')''
         then Some (take (n + length body + 1) s) else None)"

fun firstRgbCall :: "string \<Rightarrow> string option" where
  \<comment> \<open>\<open>match(/rgba?\(.*?\)/)\<close>\<close>
  "firstRgbCall [] = None"
| "firstRgbCall (c # cs) =
     (case rgbCallAt (c # cs) of Some m \<Rightarrow> Some m | None \<Rightarrow> firstRgbCall cs)"

definition getGradientFallbackColor :: "string \<Rightarrow> string option" where
  "getGradientFallbackColor bgImage =
     (if bgImage = [] then None
      else case firstHexColor bgImage of
             Some m \<Rightarrow> Some m
           | None \<Rightarrow> firstRgbCall bgImage)"

subsection \<open>getPadding, getSoftEdges\<close>

definition pxToInch :: real where
  "pxToInch = 1 / 96"

definition scaledPx :: "jsnum \<Rightarrow> jsnum \<Rightarrow> jsnum" where
  \<comment> \<open>\<open>v * pxToInch * scale\<close>\<close>
  "scaledPx v scale = jmul (jmul v (Num pxToInch)) scale"

definition getPadding :: "style \<Rightarrow> jsnum \<Rightarrow> jsnum list" where
  "getPadding st scale =
     [scaledPx (orZero (parseFloat (st ''paddingTop''))) scale,
      scaledPx (orZero (parseFloat (st ''paddingRight''))) scale,
      scaledPx (orZero (parseFloat (st ''paddingBottom''))) scale,
      scaledPx (orZero (parseFloat (st ''paddingLeft''))) scale]"

definition blurAt :: "string \<Rightarrow> string option" where
  \<comment> \<open>\<open>blur\(([\d\.]+)px\)\<close> at the start of the text: the captured number\<close>
  "blurAt s =
     (let n = takeWhile isDigitDot (drop 5 s) in
      if startsWith s ''blur('' \<and> n \<noteq> [] \<and> startsWith (drop (5 + length n) s) ''px)''
      then Some n else None)"

fun firstBlur :: "string \<Rightarrow> string option" where
  "firstBlur [] = None"
| "firstBlur (c # cs) = (case blurAt (c # cs) of Some n \<Rightarrow> Some n | None \<Rightarrow> firstBlur cs)"

definition getSoftEdges :: "string \<Rightarrow> jsnum \<Rightarrow> jsnum option" where
  "getSoftEdges filterStr scale =
     (if filterStr = [] \<or> filterStr = ''none'' then None
      else case firstBlur filterStr of
             Some n \<Rightarrow> Some (jmul (jmul (parseFloat n) (Num 0.75)) scale)
           | None \<Rightarrow> None)"

subsection \<open>getTextStyle\<close>

record textStyle =
  color :: string
  fontFace :: string
  fontSize :: jsnum
  bold :: bool
  italic :: bool
  underline :: bool

definition isQuote :: "char \<Rightarrow> bool" where
  \<comment> \<open>the class \<open>['"]\<close>\<close>
  "isQuote c = (of_char c \<in> {39, 34 :: nat})"

definition textColorObj :: "style \<Rightarrow> colorObj" where
  \<comment> \<open>the colour object \<open>getTextStyle\<close> ends with, after the gradient-text fallback\<close>
  "textColorObj st =
     (let colorObj = parseColor (st ''color'');
          bgClip = orStr (st ''webkitBackgroundClip'') (st ''backgroundClip'')
      in if opacity colorObj = Num 0 \<and> bgClip = ''text'' then
           (case getGradientFallbackColor (st ''backgroundImage'') of
              Some fallback \<Rightarrow> parseColor fallback
            | None \<Rightarrow> colorObj)
         else colorObj)"

definition getTextStyle :: "style \<Rightarrow> jsnum \<Rightarrow> textStyle" where
  "getTextStyle st scale =
     \<lparr>color = orDefault (hex (textColorObj st)) ''000000'',
      fontFace = filter (\<lambda>c. \<not> isQuote c) (takeWhile (\<lambda>c. c \<noteq> CHR '','') (st ''fontFamily'')),
      fontSize = jmul (jmul (parseFloat (st ''fontSize'')) (Num 0.75)) scale,
      bold = (case parseInt (st ''fontWeight'') of None \<Rightarrow> False | Some n \<Rightarrow> n \<ge> 600),
      italic = (st ''fontStyle'' = ''italic''),
      underline = includesStr (st ''textDecoration'') ''underline''\<rparr>"


section \<open>The rendered tree\<close>

text \<open>What the converter reads of an element: its tag (\<open>nodeName\<close> is the same string),
  its computed style, its bounding client rectangle, its layout-box size and, for
  images, its source. A node is a text node, a comment or an element with its
  \<open>childNodes\<close>.\<close>

record einfo =
  tagName :: string
  computedStyle :: style
  rectLeft :: real
  rectTop :: real
  rectWidth :: real
  rectHeight :: real
  offsetWidth :: real
  offsetHeight :: real
  src :: string

datatype node = TextNode string | CommentNode string | Element einfo "node list"

datatype error = TypeError | SyntaxError

fun isElement :: "node \<Rightarrow> bool" where
  "isElement (Element e cs) = True"
| "isElement n = False"

fun info :: "node \<Rightarrow> einfo option" where
  "info (Element e cs) = Some e"
| "info n = None"

fun childNodes :: "node \<Rightarrow> node list" where
  "childNodes (Element e cs) = cs"
| "childNodes n = []"

definition children :: "node \<Rightarrow> node list" where
  \<comment> \<open>\<open>node.children\<close>: the element children\<close>
  "children n = filter isElement (childNodes n)"

fun textContent :: "node \<Rightarrow> string" and descendantText :: "node list \<Rightarrow> string" where
  "textContent (TextNode t) = t"
| "textContent (CommentNode t) = t"
| "textContent (Element e cs) = descendantText cs"
| "descendantText [] = []"
| "descendantText (c # cs) =
     (case c of CommentNode t \<Rightarrow> [] | _ \<Rightarrow> textContent c) @ descendantText cs"

subsection \<open>isTextContainer\<close>

definition isInline :: "node \<Rightarrow> bool" where
  "isInline el =
     (case info el of
        Some e \<Rightarrow>
          includesStr (computedStyle e ''display'') ''inline'' \<or>
          tagName e \<in> set [''SPAN'', ''B'', ''STRONG'', ''EM'', ''I'', ''A'', ''SMALL'']
      | None \<Rightarrow> False)"

definition isTextContainer :: "node \<Rightarrow> bool" where
  "isTextContainer n =
     (let hasText = (length (trim (textContent n)) > 0) in
      if \<not> hasText then False
      else if length (children n) = 0 then True
      else list_all isInline (children n))"

section \<open>Rotation and shadows (src/utils.js)\<close>

fun splitOn :: "char \<Rightarrow> string \<Rightarrow> string list" where
  \<comment> \<open>\<open>s.split(c)\<close> for a one-character separator\<close>
  "splitOn c [] = [[]]"
| "splitOn c (x # xs) =
     (if x = c then [] # splitOn c xs
      else (case splitOn c xs of p # ps \<Rightarrow> (x # p) # ps | [] \<Rightarrow> [[x]]))"

definition getRotation :: "string \<Rightarrow> error + jsnum" where
  "getRotation transformStr =
     (if transformStr = [] \<or> transformStr = ''none'' then Inr (Num 0)
      else
        (let pieces = splitOn CHR ''('' transformStr in
         if length pieces < 2 then Inl TypeError
         else
           (let values = splitOn CHR '','' (splitOn CHR '')'' (pieces ! 1) ! 0) in
            if length values < 4 then Inr (Num 0)
            else
              (let a = parseFloat (values ! 0);
                   b = parseFloat (values ! 1)
               in Inr (jround (degrees (atan2 b a)))))))"

fun closesParen :: "string \<Rightarrow> bool" where
  \<comment> \<open>the lookahead \<open>[^(]*\)\<close>: a \<open>)\<close> comes before any \<open>(\<close>\<close>
  "closesParen [] = False"
| "closesParen (c # cs) =
     (if c = CHR ''('' then False else if c = CHR '')'' then True else closesParen cs)"

fun splitCommas :: "string \<Rightarrow> string list" where
  \<comment> \<open>\<open>s.split(/,(?![^(]*\))/)\<close>: at the commas outside parentheses\<close>
  "splitCommas [] = [[]]"
| "splitCommas (c # cs) =
     (if c = CHR '','' \<and> \<not> closesParen cs then [] # splitCommas cs
      else (case splitCommas cs of p # ps \<Rightarrow> (c # p) # ps | [] \<Rightarrow> [[c]]))"

definition litP :: "string \<Rightarrow> string \<Rightarrow> string option" where
  \<comment> \<open>a literal at the start of the text; the rest of the text\<close>
  "litP lit s = (if startsWith s lit then Some (drop (length lit) s) else None)"

definition runP :: "(char \<Rightarrow> bool) \<Rightarrow> string \<Rightarrow> (string \<times> string) option" where
  \<comment> \<open>\<open>[cls]+\<close> at the start of the text: the longest run, and the rest\<close>
  "runP P s = (if takeWhile P s = [] then None else Some (takeWhile P s, dropWhile P s))"

definition numP :: "bool \<Rightarrow> string \<Rightarrow> (string \<times> string) option" where
  \<comment> \<open>\<open>-?[\d\.]+\<close> (with the sign allowed) or \<open>[\d\.]+\<close>\<close>
  "numP sg s =
     (if sg \<and> startsWith s ''-'' then
        (case runP isDigitDot (drop 1 s) of
           Some (n, r) \<Rightarrow> Some (CHR ''-'' # n, r)
         | None \<Rightarrow> None)
      else runP isDigitDot s)"

definition colorP :: "string \<Rightarrow> (string \<times> string) option" where
  \<comment> \<open>\<open>(rgba?\([^\)]+\)|#[0-9a-fA-F]+)\<close> at the start of the text\<close>
  "colorP s =
     (let n = (if startsWith s ''rgba('' then 5 else if startsWith s ''rgb('' then 4 else 0);
          body = takeWhile (\<lambda>c. c \<noteq> CHR '')'') (drop n s)
      in if n \<noteq> 0 then
           (if body \<noteq> [] \<and> startsWith (drop (n + length body) s) '')''
            then Some (take (n + length body + 1) s, drop (n + length body + 1) s)
            else None)
         else if startsWith s ''#'' then
           (case runP isHexDigit (drop 1 s) of
              Some (h, r) \<Rightarrow> Some (CHR ''#'' # h, r)
            | None \<Rightarrow> None)
         else None)"

definition shadowAt :: "string \<Rightarrow> (string \<times> string \<times> string \<times> string) option" where
  \<comment> \<open>the shadow pattern at the start of the text: colour, x, y and blur as matched\<close>
  "shadowAt s = do {
     (col, r1) \<leftarrow> colorP s;
     (w1, r2) \<leftarrow> runP isSpace r1;
     (x, r3) \<leftarrow> numP True r2;
     r4 \<leftarrow> litP ''px'' r3;
     (w2, r5) \<leftarrow> runP isSpace r4;
     (y, r6) \<leftarrow> numP True r5;
     r7 \<leftarrow> litP ''px'' r6;
     (w3, r8) \<leftarrow> runP isSpace r7;
     (b, r9) \<leftarrow> numP False r8;
     r10 \<leftarrow> litP ''px'' r9;
     Some (col, x, y, b)
   }"

fun shadowMatch :: "string \<Rightarrow> (string \<times> string \<times> string \<times> string) option" where
  \<comment> \<open>\<open>s.match(...)\<close>: the leftmost place where the pattern matches\<close>
  "shadowMatch [] = None"
| "shadowMatch (c # cs) =
     (case shadowAt (c # cs) of Some m \<Rightarrow> Some m | None \<Rightarrow> shadowMatch cs)"

record shadow =
  shadowType :: string
  angle :: jsnum
  blur :: jsnum
  offset :: jsnum
  shadowColor :: string
  shadowOpacity :: jsnum

definition shadowOf :: "string \<times> string \<times> string \<times> string \<Rightarrow> jsnum \<Rightarrow> shadow" where
  \<comment> \<open>the body of \<open>if (match)\<close>\<close>
  "shadowOf m scale =
     (case m of (colorStr, xs, ys, bs) \<Rightarrow>
        (let x = parseFloat xs;
             y = parseFloat ys;
             blurPx = parseFloat bs;
             distance = jsqrt (jadd (jmul x x) (jmul y y));
             ang = degrees (atan2 y x);
             ang' = (if jlt ang (Num 0) then jadd ang (Num 360) else ang);
             colorObj = parseColor colorStr
         in \<lparr>shadowType = ''outer'',
             angle = ang',
             blur = jmul (jmul blurPx (Num 0.75)) scale,
             offset = jmul (jmul distance (Num 0.75)) scale,
             shadowColor = orDefault (hex colorObj) ''000000'',
             shadowOpacity = opacity colorObj\<rparr>))"

fun firstShadow :: "string list \<Rightarrow> jsnum \<Rightarrow> shadow option" where
  \<comment> \<open>the loop \<open>for (let s of shadows)\<close>\<close>
  "firstShadow [] scale = None"
| "firstShadow (s # ss) scale =
     (let t = trim s in
      if startsWith t ''rgba(0, 0, 0, 0)'' then firstShadow ss scale
      else case shadowMatch t of
             Some m \<Rightarrow> Some (shadowOf m scale)
           | None \<Rightarrow> firstShadow ss scale)"

definition getVisibleShadow :: "string \<Rightarrow> jsnum \<Rightarrow> shadow option" where
  "getVisibleShadow shadowStr scale =
     (if shadowStr = [] \<or> shadowStr = ''none'' then None
      else firstShadow (splitCommas shadowStr) scale)"


section \<open>Linear gradients (src/utils.js, generateGradientSVG)\<close>

function decDigits :: "int \<Rightarrow> string" where
  \<comment> \<open>the digits of a natural number in base 10\<close>
  "decDigits n = (if n < 10 then [hexChar n] else decDigits (n div 10) @ [hexChar (n mod 10)])"
  by pat_completeness auto
termination
  by (relation "measure nat") auto

declare decDigits.simps [simp del]

fun roundedStr :: "jsnum \<Rightarrow> string" where
  \<comment> \<open>the text of a number that \<open>Math.round\<close> returned\<close>
  "roundedStr NaN = ''NaN''"
| "roundedStr PInf = ''Infinity''"
| "roundedStr NInf = ''-Infinity''"
| "roundedStr (Num a) = (if a < 0 then CHR ''-'' # decDigits (- \<lfloor>a\<rfloor>) else decDigits \<lfloor>a\<rfloor>)"

record stop =
  stopOffset :: string
  stopColor :: string
  stopOpacity :: string

record gradient =
  x1 :: string
  y1 :: string
  x2 :: string
  y2 :: string
  stops :: "stop list"

definition gradientAt :: "string \<Rightarrow> string option" where
  \<comment> \<open>\<open>linear-gradient\((.*)\)\<close> at the start of the text: the group runs to the last
      \<open>)\<close> of the line\<close>
  "gradientAt s =
     (let line = takeWhile (\<lambda>c. \<not> isLineTerminator c) (drop 16 s) in
      if startsWith s ''linear-gradient('' \<and> CHR '')'' \<in> set line
      then Some (rev (drop 1 (dropWhile (\<lambda>c. c \<noteq> CHR '')'') (rev line))))
      else None)"

fun gradientMatch :: "string \<Rightarrow> string option" where
  \<comment> \<open>\<open>bgString.match(/linear-gradient\((.*)\)/)\<close>: group 1 of the leftmost match\<close>
  "gradientMatch [] = None"
| "gradientMatch (c # cs) =
     (case gradientAt (c # cs) of Some g \<Rightarrow> Some g | None \<Rightarrow> gradientMatch cs)"

definition offsetSuffix :: "string \<Rightarrow> string option" where
  \<comment> \<open>\<open>\s+(\d+(\.\d+)?%?)$\<close> on the whole text: group 2\<close>
  "offsetSuffix t = do {
     (ws, r1) \<leftarrow> runP isSpace t;
     (d, r2) \<leftarrow> runP isDigit r1;
     let fr = (if startsWith r2 ''.'' then takeWhile isDigit (drop 1 r2) else []);
     let frac = (if fr = [] then [] else CHR ''.'' # fr);
     let r3 = drop (length frac) r2;
     let pct = (if startsWith r3 ''%'' then ''%'' else []);
     if drop (length pct) r3 = [] then Some (d @ frac @ pct) else None
   }"

fun lazyGroup :: "string \<Rightarrow> string \<Rightarrow> (string \<times> string) option" where
  \<comment> \<open>\<open>(.*?)\<close> from one start: the shortest stretch of the line after which the offset follows\<close>
  "lazyGroup acc [] = None"
| "lazyGroup acc (c # cs) =
     (case offsetSuffix (c # cs) of
        Some off \<Rightarrow> Some (acc, off)
      | None \<Rightarrow> (if isLineTerminator c then None else lazyGroup (acc @ [c]) cs))"

fun posMatch :: "string \<Rightarrow> (string \<times> string) option" where
  \<comment> \<open>\<open>part.match(/(.*?)\s+(\d+(\.\d+)?%?)$/)\<close>: groups 1 and 2\<close>
  "posMatch [] = None"
| "posMatch (c # cs) =
     (case lazyGroup [] (c # cs) of Some m \<Rightarrow> Some m | None \<Rightarrow> posMatch cs)"

definition evenOffset :: "nat \<Rightarrow> nat \<Rightarrow> string" where
  \<comment> \<open>\<open>Math.round((idx / (stopParts.length - 1)) * 100) + "%"\<close>\<close>
  "evenOffset idx n =
     roundedStr (jround (jmul (jdiv (Num (real idx)) (Num (real n - 1))) (Num 100))) @ ''%''"

definition stopOf :: "nat \<Rightarrow> nat \<Rightarrow> string \<Rightarrow> stop" where
  \<comment> \<open>the body of \<open>stopParts.forEach((part, idx) => ...)\<close>, with \<open>n = stopParts.length\<close>\<close>
  "stopOf n idx part =
     (let (color0, offset0) =
            (case posMatch part of
               Some (c, off) \<Rightarrow> (c, off)
             | None \<Rightarrow> (part, evenOffset idx n));
          rgba = matchAll isDigitDot color0
      in if includesStr color0 ''rgba'' \<and> length rgba > 3
         then \<lparr>stopOffset = offset0,
               stopColor = ''rgb('' @ rgba ! 0 @ '','' @ rgba ! 1 @ '','' @ rgba ! 2 @ '')'',
               stopOpacity = rgba ! 3\<rparr>
         else \<lparr>stopOffset = offset0, stopColor = color0, stopOpacity = ''1''\<rparr>)"

definition gradientOf :: "string \<Rightarrow> gradient" where
  \<comment> \<open>from the content of \<open>linear-gradient(...)\<close>: the axis and the stops\<close>
  "gradientOf content =
     (let parts = map trim (splitCommas content);
          (ax1, ay1, ax2, ay2, stopsStartIdx) =
            (if includesStr (parts ! 0) ''to right'' then (''0%'', ''0%'', ''100%'', ''0%'', 1)
             else if includesStr (parts ! 0) ''to left'' then (''100%'', ''0%'', ''0%'', ''0%'', 1)
             else if includesStr (parts ! 0) ''to top'' then (''0%'', ''100%'', ''0%'', ''0%'', 1)
             else if includesStr (parts ! 0) ''to bottom'' then (''0%'', ''0%'', ''0%'', ''100%'', 1)
             else (''0%'', ''0%'', ''0%'', ''100%'', 0 :: nat));
          stopParts = drop stopsStartIdx parts
      in \<lparr>x1 = ax1, y1 = ay1, x2 = ax2, y2 = ay2,
          stops = map (\<lambda>(idx, part). stopOf (length stopParts) idx part)
                      (enumerate 0 stopParts)\<rparr>)"

definition parseGradient :: "string \<Rightarrow> gradient option" where
  \<comment> \<open>what \<open>generateGradientSVG\<close> reads out of \<open>bgString\<close> before it prints the SVG\<close>
  "parseGradient bgString = map_option gradientOf (gradientMatch bgString)"

text \<open>Image data. The markup and its base-64 text are not spelled out: a generated
  SVG is held as the values printed into it. On byte strings \<open>btoa\<close> cannot fail.\<close>

datatype imageData =
    DataUrl string
  | GradientSVG real real gradient jsnum "(string \<times> jsnum) option"
  | BlurredSVG real real "string option" jsnum jsnum bool

definition generateGradientSVG ::
  "real \<Rightarrow> real \<Rightarrow> string \<Rightarrow> jsnum \<Rightarrow> (string \<times> jsnum) option \<Rightarrow> imageData option" where
  "generateGradientSVG w h bgString radius border =
     map_option (\<lambda>g. GradientSVG w h g radius border) (parseGradient bgString)"

definition isCircle :: "jsnum \<Rightarrow> real \<Rightarrow> real \<Rightarrow> bool" where
  \<comment> \<open>\<open>radius >= Math.min(w, h) / 2 - 1 && Math.abs(w - h) < 2\<close>\<close>
  "isCircle radius w h = (jge radius (Num (min w h / 2 - 1)) \<and> \<bar>w - h\<bar> < 2)"

definition generateBlurredSVG ::
  "real \<Rightarrow> real \<Rightarrow> string option \<Rightarrow> jsnum \<Rightarrow> jsnum \<Rightarrow> imageData \<times> jsnum" where
  \<comment> \<open>the pair is \<open>{data, padding}\<close>\<close>
  "generateBlurredSVG w h col radius blurPx =
     (BlurredSVG w h col radius blurPx (isCircle radius w h), jmul blurPx (Num 3))"


section \<open>Render items (src/index.js)\<close>

text \<open>The option objects handed to the presentation writer. \<open>x_in\<close>, \<open>y_in\<close>, \<open>w_in\<close>
  and \<open>h_in\<close> are the source's \<open>x\<close>, \<open>y\<close>, \<open>w\<close>, \<open>h\<close> (inches). The constant text
  options \<open>margin: 0\<close>, \<open>wrap: true\<close>, \<open>autoFit: false\<close> are the same on every text item
  and are not repeated here.\<close>

record box =
  x_in :: jsnum
  y_in :: jsnum
  w_in :: jsnum
  h_in :: jsnum

datatype shapeKind = rect | roundRect | ellipse

datatype fill = FillColor string "jsnum option" | FillNone

record lineOpts =
  lineWidth :: jsnum
  lineColor :: string
  lineDash :: string

record side =
  sideWidth :: jsnum
  sideColor :: string

record sides =
  sideTop :: side
  sideRight :: side
  sideBottom :: side
  sideLeft :: side

text \<open>Modelled from the spec: \<open>getBorderInfo\<close> and \<open>generateCompositeBorderSVG\<close> are imported
  by src/index.js from utils.js but are not in src/. The border resolver gives a
  uniform descriptor (the shape's own stroke), a composite one (four sides), or none;
  the functions themselves are parameters of the model (\<open>env\<close> below).\<close>

datatype borderInfo = Uniform lineOpts | Composite sides | NoBorder

record shapeOpts =
  shapeBox :: box
  shapeRotate :: "jsnum option"
  shapeFill :: fill
  line :: "lineOpts option"
  shapeShadow :: "shadow option"
  rectRadius :: "jsnum option"

record imageOpts =
  imageSrc :: imageData
  imageBox :: box
  imageRotate :: jsnum

datatype runOpts = BulletOpts string jsnum | RunOpts textStyle

datatype textPart = TextPart string runOpts

record textOpts =
  mergedShape :: "(shapeKind \<times> shapeOpts) option"
  textBox :: box
  textRotate :: jsnum
  align :: string
  valign :: string
  inset :: "jsnum list"

datatype body = ShapeBody shapeKind shapeOpts | ImageBody imageOpts | TextBody "textPart list" textOpts

record item =
  zIndex :: "int option"
  domOrder :: nat
  body :: body

record layoutConfig =
  rootX :: real
  rootY :: real
  scale :: jsnum
  offX :: jsnum
  offY :: jsnum

text \<open>The collaborators the converter calls: the rasterising backend (\<open>svgToPng\<close>,
  \<open>getProcessedImage\<close>; \<open>None\<close> is \<open>null\<close>), the border resolver, and
  \<open>document.querySelector\<close>, which raises on a selector it cannot parse.\<close>

record env =
  svgToPng :: "node \<Rightarrow> string option"
  getProcessedImage :: "string \<Rightarrow> real \<Rightarrow> real \<Rightarrow> jsnum \<Rightarrow> string option"
  getBorderInfo :: "style \<Rightarrow> jsnum \<Rightarrow> borderInfo"
  generateCompositeBorderSVG :: "real \<Rightarrow> real \<Rightarrow> jsnum \<Rightarrow> sides \<Rightarrow> string option"
  querySelector :: "string \<Rightarrow> error + (einfo option \<times> node) option"

definition truthy :: "string option \<Rightarrow> bool" where
  \<comment> \<open>\<open>if (v)\<close> on a string or \<open>null\<close>\<close>
  "truthy v = (case v of None \<Rightarrow> False | Some t \<Rightarrow> t \<noteq> [])"

definition orReal :: "real \<Rightarrow> real \<Rightarrow> real" where
  \<comment> \<open>\<open>a || b\<close> on the numbers of the layout (0 and \<open>undefined\<close> are falsy)\<close>
  "orReal a b = (if a \<noteq> 0 then a else b)"

subsection \<open>Text runs of a text container\<close>

fun replaceRuns :: "(char \<Rightarrow> bool) \<Rightarrow> nat \<Rightarrow> string \<Rightarrow> string \<Rightarrow> string" where
  \<comment> \<open>\<open>replace(/[cls]{k,}/g, " ")\<close>: every maximal run of at least \<open>k\<close> becomes one space\<close>
  "replaceRuns P k acc [] = (if acc \<noteq> [] \<and> length acc \<ge> k then '' '' else acc)"
| "replaceRuns P k acc (c # cs) =
     (if P c then replaceRuns P k (acc @ [c]) cs
      else (if acc \<noteq> [] \<and> length acc \<ge> k then '' '' else acc) @ c # replaceRuns P k [] cs)"

definition isNRT :: "char \<Rightarrow> bool" where
  \<comment> \<open>the class \<open>[\n\r\t]\<close>\<close>
  "isNRT c = (of_char c \<in> {10, 13, 9 :: nat})"

definition sanitize :: "string \<Rightarrow> string" where
  \<comment> \<open>\<open>textVal.replace(/[\n\r\t]+/g, " ").replace(/\s{2,}/g, " ")\<close>\<close>
  "sanitize t = replaceRuns isSpace 2 [] (replaceRuns isNRT 1 [] t)"

definition bulletText :: string where
  \<comment> \<open>the bullet and a space, in UTF-8\<close>
  "bulletText = [char_of (226 :: nat), char_of (128 :: nat), char_of (162 :: nat), CHR '' '']"

definition runOf :: "style \<Rightarrow> jsnum \<Rightarrow> nat \<Rightarrow> nat \<Rightarrow> node \<Rightarrow> textPart list" where
  \<comment> \<open>the body of \<open>node.childNodes.forEach((child, index) => ...)\<close>, with
      \<open>n = node.childNodes.length\<close>: the run pushed for one child, if any\<close>
  "runOf st sc n index child =
     (let textVal = textContent child;
          nodeStyle = (case info child of Some e \<Rightarrow> computedStyle e | None \<Rightarrow> st);
          t1 = sanitize textVal;
          t2 = (if index = 0 then trimStart t1 else t1);
          t3 = (if int index = int n - 1 then trimEnd t2 else t2);
          t4 = (if nodeStyle ''textTransform'' = ''uppercase'' then toUpperCase t3 else t3);
          t5 = (if nodeStyle ''textTransform'' = ''lowercase'' then toLowerCase t4 else t4)
      in if length t5 > 0 then [TextPart t5 (RunOpts (getTextStyle nodeStyle sc))] else [])"

record textPayload =
  payloadText :: "textPart list"
  payloadAlign :: string
  payloadValign :: string
  payloadInset :: "jsnum list"

definition textPartsOf :: "style \<Rightarrow> jsnum \<Rightarrow> node list \<Rightarrow> textPart list" where
  \<comment> \<open>\<open>textParts\<close> after the bullet and the loop over \<open>childNodes\<close>\<close>
  "textPartsOf st sc cs =
     (if st ''display'' = ''list-item''
      then [TextPart bulletText
              (BulletOpts (orDefault (hex (parseColor (st ''color''))) ''000000'')
                          (jmul (jmul (parseFloat (st ''fontSize'')) (Num 0.75)) sc))]
      else [])
     @ concat (map (\<lambda>(index, child). runOf st sc (length cs) index child) (enumerate 0 cs))"

definition payloadOf :: "style \<Rightarrow> jsnum \<Rightarrow> colorObj \<Rightarrow> textPart list \<Rightarrow> textPayload option" where
  \<comment> \<open>the block \<open>if (textParts.length > 0)\<close>\<close>
  "payloadOf st sc bgColorObj textParts =
     (if length textParts > 0 then
        (let a0 = orStr (st ''textAlign'') ''left'';
             a1 = (if a0 = ''start'' then ''left'' else a0);
             a2 = (if a1 = ''end'' then ''right'' else a1);
             v0 = (if st ''alignItems'' = ''center'' then ''middle'' else ''top'');
             a3 = (if st ''justifyContent'' = ''center'' \<and> includesStr (st ''display'') ''flex''
                   then ''center'' else a2);
             pt = orZero (parseFloat (st ''paddingTop''));
             pb = orZero (parseFloat (st ''paddingBottom''));
             v1 = (if jlt (jabs (jsub pt pb)) (Num 2) \<and> truthy (hex bgColorObj) then ''middle'' else v0);
             padding = (if a3 = ''center'' \<and> v1 = ''middle'' then [Num 0, Num 0, Num 0, Num 0]
                        else getPadding st sc)
         in Some \<lparr>payloadText = textParts, payloadAlign = a3, payloadValign = v1,
                   payloadInset = padding\<rparr>)
      else None)"


subsection \<open>createRenderItem\<close>

definition zIndexOf :: "style \<Rightarrow> int option" where
  \<comment> \<open>\<open>style.zIndex !== "auto" ? parseInt(style.zIndex) : 0\<close>\<close>
  "zIndexOf st = (if st ''zIndex'' \<noteq> ''auto'' then parseInt (st ''zIndex'') else Some 0)"

definition boxOf :: "einfo \<Rightarrow> layoutConfig \<Rightarrow> box" where
  \<comment> \<open>\<open>x\<close>, \<open>y\<close>, \<open>w\<close>, \<open>h\<close> as first computed\<close>
  "boxOf e config =
     (let widthPx = orReal (offsetWidth e) (rectWidth e);
          heightPx = orReal (offsetHeight e) (rectHeight e);
          unrotatedW = scaledPx (Num widthPx) (scale config);
          unrotatedH = scaledPx (Num heightPx) (scale config);
          centerX = rectLeft e + rectWidth e / 2;
          centerY = rectTop e + rectHeight e / 2
      in \<lparr>x_in = jsub (jadd (offX config) (scaledPx (Num (centerX - rootX config)) (scale config)))
                       (jdiv unrotatedW (Num 2)),
          y_in = jsub (jadd (offY config) (scaledPx (Num (centerY - rootY config)) (scale config)))
                       (jdiv unrotatedH (Num 2)),
          w_in = unrotatedW,
          h_in = unrotatedH\<rparr>)"

definition imageItem :: "int option \<Rightarrow> nat \<Rightarrow> imageData \<Rightarrow> box \<Rightarrow> jsnum \<Rightarrow> item" where
  "imageItem z d dat bx rot =
     \<lparr>zIndex = z, domOrder = d, body = ImageBody \<lparr>imageSrc = dat, imageBox = bx, imageRotate = rot\<rparr>\<rparr>"

definition plusOne :: "int option \<Rightarrow> int option" where
  \<comment> \<open>\<open>zIndex + 1\<close>\<close>
  "plusOne z = map_option (\<lambda>i. i + 1) z"

definition borderShape :: "int option \<Rightarrow> nat \<Rightarrow> box \<Rightarrow> string \<Rightarrow> item" where
  "borderShape z d bx col =
     \<lparr>zIndex = plusOne z, domOrder = d,
      body = ShapeBody rect \<lparr>shapeBox = bx, shapeRotate = None, shapeFill = FillColor col None,
                              line = None, shapeShadow = None, rectRadius = None\<rparr>\<rparr>"

definition createCompositeBorderItems ::
  "sides \<Rightarrow> box \<Rightarrow> jsnum \<Rightarrow> int option \<Rightarrow> nat \<Rightarrow> item list" where
  "createCompositeBorderItems sd bx sc z d =
     (let tw = scaledPx (sideWidth (sideTop sd)) sc;
          rw = scaledPx (sideWidth (sideRight sd)) sc;
          bw = scaledPx (sideWidth (sideBottom sd)) sc;
          lw = scaledPx (sideWidth (sideLeft sd)) sc
      in (if jgt (sideWidth (sideTop sd)) (Num 0)
          then [borderShape z d (bx\<lparr>h_in := tw\<rparr>) (sideColor (sideTop sd))] else [])
       @ (if jgt (sideWidth (sideRight sd)) (Num 0)
          then [borderShape z d (bx\<lparr>x_in := jsub (jadd (x_in bx) (w_in bx)) rw, w_in := rw\<rparr>)
                  (sideColor (sideRight sd))] else [])
       @ (if jgt (sideWidth (sideBottom sd)) (Num 0)
          then [borderShape z d (bx\<lparr>y_in := jsub (jadd (y_in bx) (h_in bx)) bw, h_in := bw\<rparr>)
                  (sideColor (sideBottom sd))] else [])
       @ (if jgt (sideWidth (sideLeft sd)) (Num 0)
          then [borderShape z d (bx\<lparr>w_in := lw\<rparr>) (sideColor (sideLeft sd))] else []))"

definition childInfos :: "node list \<Rightarrow> einfo list" where
  \<comment> \<open>the element children, as \<open>Array.from(node.children)\<close>\<close>
  "childInfos cs = List.map_filter info cs"

definition isImageWrapper :: "node list \<Rightarrow> real \<Rightarrow> real \<Rightarrow> bool" where
  "isImageWrapper cs widthPx heightPx =
     (case find (\<lambda>c. tagName c = ''IMG'') (childInfos cs) of
        Some imgChild \<Rightarrow>
          orReal (offsetWidth imgChild) (rectWidth imgChild) \<ge> widthPx - 2 \<and>
          orReal (offsetHeight imgChild) (rectHeight imgChild) \<ge> heightPx - 2
      | None \<Rightarrow> False)"

definition shapeChoice :: "jsnum \<Rightarrow> real \<Rightarrow> real \<Rightarrow> shapeKind \<times> jsnum option" where
  \<comment> \<open>\<open>shapeType\<close> and \<open>shapeOpts.rectRadius\<close>\<close>
  "shapeChoice borderRadius widthPx heightPx =
     (if isCircle borderRadius widthPx heightPx then (ellipse, None)
      else if jgt borderRadius (Num 0)
      then (roundRect, Some (jmin (Num 1) (jdiv borderRadius (Num (min widthPx heightPx / 2)))))
      else (rect, None))"

definition textAssembly :: "einfo \<Rightarrow> node list \<Rightarrow> jsnum \<Rightarrow> box \<Rightarrow> textPayload option \<times> box" where
  \<comment> \<open>the block \<open>if (isText)\<close>: the payload, and the box after the shift for a list bullet\<close>
  "textAssembly e cs sc bx =
     (let st = computedStyle e in
      if isTextContainer (Element e cs) then
        (let bulletShift = jmul (scaledPx (orNum (parseFloat (st ''fontSize'')) (Num 16)) sc) (Num 1.5);
             bx' = (if st ''display'' = ''list-item''
                    then bx\<lparr>x_in := jsub (x_in bx) bulletShift, w_in := jadd (w_in bx) bulletShift\<rparr>
                    else bx)
         in (payloadOf st sc (parseColor (st ''backgroundColor'')) (textPartsOf st sc cs), bx'))
      else (None, bx))"

definition textItem :: "int option \<Rightarrow> nat \<Rightarrow> textPayload \<Rightarrow> (shapeKind \<times> shapeOpts) option \<Rightarrow> box \<Rightarrow> jsnum \<Rightarrow> item" where
  "textItem z d tp sh bx rot =
     \<lparr>zIndex = z, domOrder = d,
      body = TextBody (payloadText tp)
               \<lparr>mergedShape = sh, textBox = bx, textRotate = rot, align = payloadAlign tp,
                valign = payloadValign tp, inset = payloadInset tp\<rparr>\<rparr>"

definition truthyNum :: "jsnum option \<Rightarrow> bool" where
  \<comment> \<open>\<open>if (v)\<close> on a number or \<open>null\<close>\<close>
  "truthyNum v = (case v of None \<Rightarrow> False | Some a \<Rightarrow> \<not> falsyNum a)"

definition hasBorder :: "style \<Rightarrow> bool" where
  \<comment> \<open>\<open>borderWidth > 0 && borderColorObj.hex\<close>\<close>
  "hasBorder st =
     (jgt (parseFloat (st ''borderWidth'')) (Num 0) \<and> truthy (hex (parseColor (st ''borderColor''))))"

definition gradientItems ::
  "einfo \<Rightarrow> jsnum \<Rightarrow> nat \<Rightarrow> jsnum \<Rightarrow> borderInfo \<Rightarrow> textPayload option \<Rightarrow> box \<Rightarrow> item list" where
  \<comment> \<open>the branch \<open>if (hasGradient || (softEdge && bgColorObj.hex && !isImageWrapper))\<close>\<close>
  "gradientItems e sc d rotation bi tp bx =
     (let st = computedStyle e;
          z = zIndexOf st;
          widthPx = orReal (offsetWidth e) (rectWidth e);
          heightPx = orReal (offsetHeight e) (rectHeight e);
          bgColorObj = parseColor (st ''backgroundColor'');
          borderRadius = orZero (parseFloat (st ''borderRadius''));
          softEdge = getSoftEdges (st ''filter'') sc;
          (bgData, padIn) =
            (if truthyNum softEdge then
               (case generateBlurredSVG widthPx heightPx (hex bgColorObj) borderRadius (the softEdge) of
                  (dat, pad) \<Rightarrow> (Some dat, scaledPx pad sc))
             else
               (generateGradientSVG widthPx heightPx (st ''backgroundImage'') borderRadius
                  (if hasBorder st
                   then Some (the (hex (parseColor (st ''borderColor''))), parseFloat (st ''borderWidth''))
                   else None),
                Num 0))
      in (case bgData of
            Some dat \<Rightarrow>
              [imageItem z d dat
                 \<lparr>x_in = jsub (x_in bx) padIn, y_in = jsub (y_in bx) padIn,
                  w_in = jadd (w_in bx) (jmul padIn (Num 2)),
                  h_in = jadd (h_in bx) (jmul padIn (Num 2))\<rparr> rotation]
          | None \<Rightarrow> [])
         @ (case tp of
              Some p \<Rightarrow> [textItem (plusOne z) d p None bx rotation]
            | None \<Rightarrow> [])
         @ (case bi of
              Composite sd \<Rightarrow> createCompositeBorderItems sd bx sc z d
            | _ \<Rightarrow> []))"

definition shapeOptsOf :: "einfo \<Rightarrow> jsnum \<Rightarrow> jsnum \<Rightarrow> borderInfo \<Rightarrow> bool \<Rightarrow> box \<Rightarrow> shapeOpts" where
  \<comment> \<open>\<open>shapeOpts\<close>, with the shadow and the corner radius set; \<open>wrapper\<close> is
      \<open>isImageWrapper\<close>\<close>
  "shapeOptsOf e sc rotation bi wrapper bx =
     (let st = computedStyle e;
          elementOpacity = parseFloat (st ''opacity'');
          bgColorObj = parseColor (st ''backgroundColor'');
          shadowStr = st ''boxShadow'';
          hasShadow = (shadowStr \<noteq> [] \<and> shadowStr \<noteq> ''none'');
          finalAlpha = jmul elementOpacity (opacity bgColorObj);
          transparency = jmul (jsub (Num 1) finalAlpha) (Num 100);
          borderRadius = orZero (parseFloat (st ''borderRadius''));
          widthPx = orReal (offsetWidth e) (rectWidth e);
          heightPx = orReal (offsetHeight e) (rectHeight e)
      in \<lparr>shapeBox = bx, shapeRotate = Some rotation,
          shapeFill = (if truthy (hex bgColorObj) \<and> \<not> wrapper
                       then FillColor (the (hex bgColorObj)) (Some transparency)
                       else FillNone),
          line = (case bi of Uniform lo \<Rightarrow> Some lo | _ \<Rightarrow> None),
          shapeShadow = (if hasShadow then getVisibleShadow shadowStr sc else None),
          rectRadius = snd (shapeChoice borderRadius widthPx heightPx)\<rparr>)"

definition shapeItems ::
  "env \<Rightarrow> einfo \<Rightarrow> jsnum \<Rightarrow> nat \<Rightarrow> jsnum \<Rightarrow> borderInfo \<Rightarrow> bool \<Rightarrow> textPayload option \<Rightarrow> box \<Rightarrow> item list" where
  \<comment> \<open>the branch \<open>else if ((bgColorObj.hex && !isImageWrapper) || ...)\<close>\<close>
  "shapeItems ev e sc d rotation bi wrapper tp bx =
     (let st = computedStyle e;
          z = zIndexOf st;
          borderRadius = orZero (parseFloat (st ''borderRadius''));
          widthPx = orReal (offsetWidth e) (rectWidth e);
          heightPx = orReal (offsetHeight e) (rectHeight e);
          opts = shapeOptsOf e sc rotation bi wrapper bx;
          shapeType = fst (shapeChoice borderRadius widthPx heightPx)
      in (case tp of
            Some p \<Rightarrow> [textItem z d p (Some (shapeType, opts)) bx rotation]
          | None \<Rightarrow> [\<lparr>zIndex = z, domOrder = d, body = ShapeBody shapeType opts\<rparr>])
         @ (case bi of
              Composite sd \<Rightarrow>
                (if truthy (generateCompositeBorderSVG ev widthPx heightPx borderRadius sd)
                 then [imageItem (plusOne z) d
                         (DataUrl (the (generateCompositeBorderSVG ev widthPx heightPx borderRadius sd)))
                         bx rotation]
                 else [])
            | _ \<Rightarrow> []))"

definition elementItems ::
  "env \<Rightarrow> einfo \<Rightarrow> node list \<Rightarrow> layoutConfig \<Rightarrow> nat \<Rightarrow> jsnum \<Rightarrow> item list \<times> bool" where
  \<comment> \<open>\<open>createRenderItem\<close> from \<open>const bgColorObj\<close> on: the items and \<open>stopRecursion\<close>\<close>
  "elementItems ev e cs config d rotation =
     (let st = computedStyle e;
          sc = scale config;
          widthPx = orReal (offsetWidth e) (rectWidth e);
          heightPx = orReal (offsetHeight e) (rectHeight e);
          bgColorObj = parseColor (st ''backgroundColor'');
          bgClip = orStr (st ''webkitBackgroundClip'') (st ''backgroundClip'');
          hasGradient = (bgClip \<noteq> ''text'' \<and> st ''backgroundImage'' \<noteq> [] \<and>
                         includesStr (st ''backgroundImage'') ''linear-gradient'');
          bi = getBorderInfo ev st sc;
          shadowStr = st ''boxShadow'';
          hasShadow = (shadowStr \<noteq> [] \<and> shadowStr \<noteq> ''none'');
          softEdge = getSoftEdges (st ''filter'') sc;
          wrapper = isImageWrapper cs widthPx heightPx;
          tp = fst (textAssembly e cs sc (boxOf e config));
          bx = snd (textAssembly e cs sc (boxOf e config))
      in if hasGradient \<or> (truthyNum softEdge \<and> truthy (hex bgColorObj) \<and> \<not> wrapper) then
           (gradientItems e sc d rotation bi tp bx, tp \<noteq> None)
         else if (truthy (hex bgColorObj) \<and> \<not> wrapper) \<or> bi \<noteq> NoBorder \<or> hasShadow \<or> tp \<noteq> None then
           (shapeItems ev e sc d rotation bi wrapper tp bx, tp \<noteq> None)
         else ([], tp \<noteq> None))"

definition imgRadius :: "einfo option \<Rightarrow> style \<Rightarrow> error + jsnum" where
  \<comment> \<open>the corner radius of an \<open>IMG\<close>: its own, or the one of a clipping parent;
      \<open>getComputedStyle(node.parentElement)\<close> raises when there is no parent element\<close>
  "imgRadius parent st =
     (let borderRadius = orZero (parseFloat (st ''borderRadius'')) in
      if borderRadius = Num 0 then
        (case parent of
           None \<Rightarrow> Inl TypeError
         | Some pe \<Rightarrow>
             Inr (if computedStyle pe ''overflow'' \<noteq> ''visible''
                  then orZero (parseFloat (computedStyle pe ''borderRadius''))
                  else borderRadius))
      else Inr borderRadius)"

definition hidden :: "style \<Rightarrow> bool" where
  "hidden st = (st ''display'' = ''none'' \<or> st ''visibility'' = ''hidden'' \<or> st ''opacity'' = ''0'')"

fun createRenderItem ::
  "env \<Rightarrow> einfo option \<Rightarrow> node \<Rightarrow> layoutConfig \<Rightarrow> nat \<Rightarrow> error + (item list \<times> bool) option" where
  \<comment> \<open>\<open>None\<close> is \<open>null\<close>; the pair is \<open>{items, stopRecursion}\<close>; the second argument is
      \<open>node.parentElement\<close>\<close>
  "createRenderItem ev parent (Element e cs) config d =
     (let st = computedStyle e in
      if hidden st then Inr None
      else if rectWidth e = 0 \<or> rectHeight e = 0 then Inr None
      else
        (case getRotation (st ''transform'') of
           Inl err \<Rightarrow> Inl err
         | Inr rotation \<Rightarrow>
             (if toUpperCase (tagName e) = ''SVG'' then
                Inr (Some ((if truthy (svgToPng ev (Element e cs))
                            then [imageItem (zIndexOf st) d (DataUrl (the (svgToPng ev (Element e cs))))
                                    (boxOf e config) rotation]
                            else []), True))
              else if tagName e = ''IMG'' then
                (case imgRadius parent st of
                   Inl err \<Rightarrow> Inl err
                 | Inr borderRadius \<Rightarrow>
                     (let processed = getProcessedImage ev (src e)
                            (orReal (offsetWidth e) (rectWidth e))
                            (orReal (offsetHeight e) (rectHeight e)) borderRadius
                      in Inr (Some ((if truthy processed
                                     then [imageItem (zIndexOf st) d (DataUrl (the processed))
                                             (boxOf e config) rotation]
                                     else []), True))))
              else Inr (Some (elementItems ev e cs config d rotation)))))"
| "createRenderItem ev parent n config d = Inr None"

subsection \<open>processSlide\<close>

fun collect ::
  "env \<Rightarrow> layoutConfig \<Rightarrow> einfo option \<Rightarrow> node \<Rightarrow> item list \<times> nat \<Rightarrow> error + item list \<times> nat"
and collectAll ::
  "env \<Rightarrow> layoutConfig \<Rightarrow> einfo option \<Rightarrow> node list \<Rightarrow> item list \<times> nat \<Rightarrow> error + item list \<times> nat"
where
  \<comment> \<open>the state is \<open>renderQueue\<close> and \<open>domOrderCounter\<close>; \<open>collectAll\<close> is the loop
      \<open>for (const child of node.children)\<close>, which a node without \<open>children\<close> makes raise\<close>
  "collect ev config parent (Element e cs) (q, k) =
     (case createRenderItem ev parent (Element e cs) config k of
        Inl err \<Rightarrow> Inl err
      | Inr None \<Rightarrow> collectAll ev config (Some e) cs (q, Suc k)
      | Inr (Some (items, stopRecursion)) \<Rightarrow>
          (if stopRecursion then Inr (q @ items, Suc k)
           else collectAll ev config (Some e) cs (q @ items, Suc k)))"
| "collect ev config parent (TextNode t) (q, k) = Inl TypeError"
| "collect ev config parent (CommentNode t) (q, k) = Inl TypeError"
| "collectAll ev config parent [] s = Inr s"
| "collectAll ev config parent (c # cs) s =
     (if isElement c then
        (case collect ev config parent c s of
           Inl err \<Rightarrow> Inl err
         | Inr s' \<Rightarrow> collectAll ev config parent cs s')
      else collectAll ev config parent cs s)"

definition layoutConfigOf :: "einfo \<Rightarrow> layoutConfig" where
  "layoutConfigOf rootEl =
     (let contentWidthIn = Num (rectWidth rootEl * pxToInch);
          contentHeightIn = Num (rectHeight rootEl * pxToInch);
          sc = jmin (jdiv (Num 10) contentWidthIn) (jdiv (Num 5.625) contentHeightIn)
      in \<lparr>rootX = rectLeft rootEl, rootY = rectTop rootEl, scale = sc,
          offX = jdiv (jsub (Num 10) (jmul contentWidthIn sc)) (Num 2),
          offY = jdiv (jsub (Num 5.625) (jmul contentHeightIn sc)) (Num 2)\<rparr>)"

definition compareItems :: "item \<Rightarrow> item \<Rightarrow> int option" where
  \<comment> \<open>the comparator of \<open>renderQueue.sort\<close>; \<open>None\<close> is \<open>NaN\<close> (and \<open>NaN !== NaN\<close>)\<close>
  "compareItems a b =
     (case (zIndex a, zIndex b) of
        (Some za, Some zb) \<Rightarrow>
          (if za \<noteq> zb then Some (za - zb) else Some (int (domOrder a) - int (domOrder b)))
      | _ \<Rightarrow> None)"

definition sortCompare :: "item \<Rightarrow> item \<Rightarrow> int" where
  \<comment> \<open>the comparator as \<open>sort\<close> reads it: \<open>NaN\<close> counts as 0\<close>
  "sortCompare a b = (case compareItems a b of None \<Rightarrow> 0 | Some v \<Rightarrow> v)"

fun insertItem :: "item \<Rightarrow> item list \<Rightarrow> item list" where
  "insertItem a [] = [a]"
| "insertItem a (b # bs) = (if sortCompare a b \<le> 0 then a # b # bs else b # insertItem a bs)"

definition sortQueue :: "item list \<Rightarrow> item list" where
  \<comment> \<open>\<open>renderQueue.sort(...)\<close>. The sort is stable; on a consistent comparator every
      stable sort gives the same list, so it is written as an insertion sort\<close>
  "sortQueue q = foldr insertItem q []"

definition accumulated :: "env \<Rightarrow> einfo option \<Rightarrow> einfo \<Rightarrow> node list \<Rightarrow> error + item list" where
  \<comment> \<open>\<open>renderQueue\<close> after \<open>await collect(root)\<close>\<close>
  "accumulated ev parent e cs =
     (case collect ev (layoutConfigOf e) parent (Element e cs) ([], 0) of
        Inl err \<Rightarrow> Inl err
      | Inr (q, k) \<Rightarrow> Inr q)"

fun processSlide :: "env \<Rightarrow> einfo option \<Rightarrow> node \<Rightarrow> error + item list" where
  \<comment> \<open>the slide is the list of the items added to it, in the order they are added;
      a root that is not an element has no \<open>getBoundingClientRect\<close>\<close>
  "processSlide ev parent (Element e cs) =
     (case accumulated ev parent e cs of
        Inl err \<Rightarrow> Inl err
      | Inr q \<Rightarrow> Inr (sortQueue q))"
| "processSlide ev parent n = Inl TypeError"

subsection \<open>exportToPptx\<close>








section \<open>The specification's words\<close>

text \<open>Definitions that follow the specification, to be compared with the code's.\<close>

definition itemKey :: "item \<Rightarrow> int \<times> nat" where
  \<comment> \<open>the sort key (zIndex, domOrder) of an item whose zIndex is a number; pairs are
      ordered lexicographically\<close>
  "itemKey i = (the (zIndex i), domOrder i)"







definition skippedEntry :: "string \<Rightarrow> bool" where
  \<comment> \<open>an entry of the box-shadow list that the converter passes over: it begins (once
      trimmed) with the transparent colour as computed styles write it, or the pattern
      of a colour and three pixel lengths matches nowhere in it\<close>
  "skippedEntry u = (startsWith (trim u) ''rgba(0, 0, 0, 0)'' \<or> shadowMatch (trim u) = None)"

definition specAngle :: "real \<Rightarrow> real \<Rightarrow> real" where
  \<comment> \<open>atan2(y, x) in degrees, with 360 added when negative\<close>
  "specAngle x y =
     (if atan2r y x * (180 / pi) < 0 then atan2r y x * (180 / pi) + 360 else atan2r y x * (180 / pi))"

section \<open>Example inputs\<close>

definition plainStyle :: style where
  \<comment> \<open>a style with every property empty\<close>
  "plainStyle = (\<lambda>p. [])"

definition badgeSpan :: node where
  \<comment> \<open>an inline badge with a background of its own\<close>
  "badgeSpan =
     Element \<lparr>tagName = ''SPAN'',
              computedStyle = plainStyle(''display'' := ''inline-block'',
                                         ''backgroundColor'' := ''rgb(255, 0, 0)''),
              rectLeft = 0, rectTop = 0, rectWidth = 40, rectHeight = 20,
              offsetWidth = 40, offsetHeight = 20, src = []\<rparr>
       [TextNode ''Vashi'']"

definition badgeParagraph :: node where
  \<comment> \<open>a paragraph whose only element child is the badge\<close>
  "badgeParagraph =
     Element \<lparr>tagName = ''P'', computedStyle = plainStyle(''display'' := ''block''),
              rectLeft = 0, rectTop = 0, rectWidth = 200, rectHeight = 20,
              offsetWidth = 200, offsetHeight = 20, src = []\<rparr>
       [TextNode ''Pune '', badgeSpan]"

definition transparentText :: style where
  "transparentText = plainStyle(''color'' := ''rgba(0, 0, 0, 0)'')"

definition noBackend :: env where
  \<comment> \<open>collaborators that produce nothing: no raster data, no border, no selector match\<close>
  "noBackend =
     \<lparr>svgToPng = (\<lambda>n. None),
      getProcessedImage = (\<lambda>s w h r. None),
      getBorderInfo = (\<lambda>st sc. NoBorder),
      generateCompositeBorderSVG = (\<lambda>w h r sd. None),
      querySelector = (\<lambda>sel. Inr None)\<rparr>"

definition divOf :: "style \<Rightarrow> real \<Rightarrow> real \<Rightarrow> einfo" where
  \<comment> \<open>a \<open>DIV\<close> of a style and a size, at the origin\<close>
  "divOf st w h =
     \<lparr>tagName = ''DIV'', computedStyle = st, rectLeft = 0, rectTop = 0, rectWidth = w,
      rectHeight = h, offsetWidth = w, offsetHeight = h, src = []\<rparr>"

definition unitConfig :: layoutConfig where
  "unitConfig = \<lparr>rootX = 0, rootY = 0, scale = Num 1, offX = Num 0, offY = Num 0\<rparr>"

definition imageAt :: "int \<Rightarrow> nat \<Rightarrow> item" where
  \<comment> \<open>an image item of a zIndex and a domOrder\<close>
  "imageAt z d =
     imageItem (Some z) d (DataUrl ''data:'')
       \<lparr>x_in = Num 0, y_in = Num 0, w_in = Num 1, h_in = Num 1\<rparr> (Num 0)"

definition unsortedQueue :: "item list" where
  "unsortedQueue = [imageAt 0 2, imageAt 0 1, imageAt (- 1) 5]"

definition hiddenDiv :: einfo where
  "hiddenDiv = divOf (plainStyle(''display'' := ''none'')) 10 10"



section \<open>Properties\<close>

subsection \<open>Colours\<close>





subsection \<open>Text style\<close>

lemma orDefault_nonempty: "d \<noteq> [] \<Longrightarrow> orDefault h d \<noteq> []"
  by (simp add: orDefault_def orStr_def split: option.splits)

text \<open>
  C10: a run whose colour parses to a null hex, and whose style does not take the
  gradient fallback (the clip is not \<open>text\<close>, or the background image holds no colour),
  is emitted with the colour \<open>000000\<close>; and the colour of a run is never empty.
\<close>

theorem getTextStyle_null_hex_black:
  "color (getTextStyle st sc) \<noteq> [] \<and>
   (hex (parseColor (st ''color'')) = None \<longrightarrow>
    (orStr (st ''webkitBackgroundClip'') (st ''backgroundClip'') \<noteq> ''text'' \<or>
     getGradientFallbackColor (st ''backgroundImage'') = None) \<longrightarrow>
    color (getTextStyle st sc) = ''000000'')"
proof (intro conjI impI)
  show "color (getTextStyle st sc) \<noteq> []"
    by (simp add: getTextStyle_def orDefault_nonempty)
next
  assume nohex: "hex (parseColor (st ''color'')) = None"
    and nofb: "orStr (st ''webkitBackgroundClip'') (st ''backgroundClip'') \<noteq> ''text'' \<or>
               getGradientFallbackColor (st ''backgroundImage'') = None"
  from nofb have "textColorObj st = parseColor (st ''color'')"
    by (auto simp: textColorObj_def Let_def)
  with nohex show "color (getTextStyle st sc) = ''000000''"
    by (simp add: getTextStyle_def orDefault_def)
qed

theorem getTextStyle_null_hex_black_witness:
  "hex (parseColor (transparentText ''color'')) = None \<and>
   orStr (transparentText ''webkitBackgroundClip'') (transparentText ''backgroundClip'') \<noteq> ''text'' \<and>
   color (getTextStyle transparentText (Num 1)) = ''000000''"
proof -
  have c: "transparentText ''color'' = ''rgba(0, 0, 0, 0)''"
    by (simp add: transparentText_def)
  have h1: "hex (parseColor (transparentText ''color'')) = None"
    unfolding c by code_simp
  have h2: "orStr (transparentText ''webkitBackgroundClip'') (transparentText ''backgroundClip'') \<noteq> ''text''"
    by (simp add: transparentText_def plainStyle_def orStr_def)
  from getTextStyle_null_hex_black [of transparentText "Num 1"] have
    "hex (parseColor (transparentText ''color'')) = None \<longrightarrow>
      (orStr (transparentText ''webkitBackgroundClip'') (transparentText ''backgroundClip'') \<noteq> ''text'' \<or>
       getGradientFallbackColor (transparentText ''backgroundImage'') = None) \<longrightarrow>
      color (getTextStyle transparentText (Num 1)) = ''000000''"
    by (rule conjunct2)
  with h1 h2 show ?thesis
    by simp
qed

subsection \<open>Rotation\<close>

text \<open>
  An element without a transform is not rotated. A transform string with an opening
  parenthesis always yields a number (possibly NaN); the exception is raised exactly
  on the non-empty strings other than \<open>none\<close> that have none.
\<close>

lemma getRotation_empty: "getRotation [] = Inr (Num 0)"
  by (simp add: getRotation_def)

lemma splitOn_nonempty: "splitOn c s \<noteq> []"
  by (induction s) (auto split: list.splits)

lemma splitOn_length: "length (splitOn c s) = Suc (length (filter (\<lambda>x. x = c) s))"
  by (induction s) (auto split: list.splits)

lemma getRotation_total_with_paren:
  "CHR ''('' \<in> set s \<Longrightarrow> \<exists>r. getRotation s = Inr r"
proof -
  assume "CHR ''('' \<in> set s"
  then have "filter (\<lambda>x. x = CHR ''('') s \<noteq> []"
    by (simp add: filter_empty_conv)
  then have "2 \<le> length (splitOn CHR ''('' s)"
    by (cases "filter (\<lambda>x. x = CHR ''('') s") (simp_all add: splitOn_length)
  then show ?thesis
    by (auto simp: getRotation_def Let_def)
qed

lemma getRotation_raises_iff:
  "(getRotation s = Inl TypeError) = (s \<noteq> [] \<and> s \<noteq> ''none'' \<and> CHR ''('' \<notin> set s)"
proof -
  have "(filter (\<lambda>x. x = CHR ''('') s = []) = (CHR ''('' \<notin> set s)"
    by (auto simp: filter_empty_conv)
  then have "(length (splitOn CHR ''('' s) < 2) = (CHR ''('' \<notin> set s)"
    by (cases "filter (\<lambda>x. x = CHR ''('') s") (simp_all add: splitOn_length)
  then show ?thesis
    by (auto simp: getRotation_def Let_def)
qed

lemma parseFloat_letters: "parseFloat ''a'' = NaN" "parseFloat '' b'' = NaN"
  by code_simp+

lemma getRotation_not_a_number: "getRotation ''matrix(a, b, c, d)'' = Inr NaN"
  by (simp add: getRotation_def parseFloat_letters degrees_def)

lemma parseFloat_quarter_turn: "parseFloat ''0'' = Num 0" "parseFloat '' 1'' = Num 1"
  by code_simp+

lemma getRotation_quarter_turn: "getRotation ''matrix(0, 1, -1, 0, 0, 0)'' = Inr (Num 90)"
proof -
  have "\<lfloor>(90::real) + 1 / 2\<rfloor> = 90" by linarith
  then show ?thesis
    by (simp add: getRotation_def parseFloat_quarter_turn degrees_def atan2r_def)
qed

text \<open>
  C7 does not hold of the code: on a transform string that is neither empty nor
  \<open>none\<close> and has no opening parenthesis, \<open>split('(')[1]\<close> is \<open>undefined\<close> and the call
  of \<open>split\<close> on it raises a TypeError.
\<close>

theorem getRotation_raises:
  "getRotation ''rotate'' = Inl TypeError"
  by (simp add: getRotation_def)

subsection \<open>Text containers\<close>

lemma isTextContainer_reads_display_and_tag_only:
  "isTextContainer n =
     (trim (textContent n) \<noteq> [] \<and> (children n = [] \<or> list_all isInline (children n)))"
  by (auto simp: isTextContainer_def Let_def)

text \<open>
  What the classification decides: the element of a text container is rendered as one
  text box whose runs take their options from \<open>getTextStyle\<close> alone, and its
  children are not visited. For the paragraph with the badge, the badge survives only
  as the run \<open>Vashi\<close>.
\<close>

lemma snd_elementItems:
  "snd (elementItems ev e cs config d rot) = (fst (textAssembly e cs (scale config) (boxOf e config)) \<noteq> None)"
  by (simp add: elementItems_def Let_def)

lemma payloadOf_None: "(payloadOf st sc bg parts = None) = (parts = [])"
  by (simp add: payloadOf_def Let_def)

lemma runOf_style:
  "TextPart t ro \<in> set (runOf st sc n index child) \<Longrightarrow>
   ro = RunOpts (getTextStyle (case info child of Some e \<Rightarrow> computedStyle e | None \<Rightarrow> st) sc)"
  by (auto simp: runOf_def Let_def split: if_splits)

lemma badge_runs:
  "map (\<lambda>p. case p of TextPart t ro \<Rightarrow> t)
     (textPartsOf (plainStyle(''display'' := ''block'')) (Num 1) [TextNode ''Pune '', badgeSpan])
     = [''Pune '', ''Vashi'']"
  by code_simp

lemma badge_is_text: "isTextContainer badgeParagraph"
  by code_simp

lemma badge_flattened:
  "\<exists>items. createRenderItem noBackend None badgeParagraph unitConfig 0 = Inr (Some (items, True))"
proof -
  let ?e = "\<lparr>tagName = ''P'', computedStyle = plainStyle(''display'' := ''block''),
              rectLeft = 0, rectTop = 0, rectWidth = 200, rectHeight = 20,
              offsetWidth = 200, offsetHeight = 20, src = []\<rparr>"
  let ?cs = "[TextNode ''Pune '', badgeSpan]"
  have parts: "textPartsOf (plainStyle(''display'' := ''block'')) (Num 1) ?cs \<noteq> []"
    using badge_runs by auto
  have "fst (textAssembly ?e ?cs (Num 1) (boxOf ?e unitConfig)) =
          payloadOf (plainStyle(''display'' := ''block'')) (Num 1)
            (parseColor ((plainStyle(''display'' := ''block'')) ''backgroundColor''))
            (textPartsOf (plainStyle(''display'' := ''block'')) (Num 1) ?cs)"
    using badge_is_text by (simp add: textAssembly_def Let_def badgeParagraph_def)
  with parts have "fst (textAssembly ?e ?cs (Num 1) (boxOf ?e unitConfig)) \<noteq> None"
    by (simp only: payloadOf_None not_False_eq_True)
  then have stop: "snd (elementItems noBackend ?e ?cs unitConfig 0 (Num 0))"
    by (simp add: snd_elementItems unitConfig_def)
  define its where "its = elementItems noBackend ?e ?cs unitConfig 0 (Num 0)"
  have "createRenderItem noBackend None badgeParagraph unitConfig 0 = Inr (Some its)"
    unfolding its_def badgeParagraph_def
    by (simp add: plainStyle_def hidden_def getRotation_empty toUpperCase_def upperChar_def inRange_def)
  moreover from stop have "its = (fst its, True)"
    unfolding its_def [symmetric] by (cases its) simp
  ultimately have "createRenderItem noBackend None badgeParagraph unitConfig 0 = Inr (Some (fst its, True))"
    by simp
  then show ?thesis ..
qed

text \<open>
  C1 does not hold of the code: \<open>isTextContainer\<close> looks at the text of the node and
  at the \<open>display\<close> and the tag of its element children, never at a child's
  background or border. A paragraph with an inline badge that has a red background of
  its own is classified as a text container.
\<close>

theorem isTextContainer_styled_child:
  "isTextContainer badgeParagraph \<and>
   children badgeParagraph = [badgeSpan] \<and>
   map_option (\<lambda>e. hex (parseColor (computedStyle e ''backgroundColor''))) (info badgeSpan)
     = Some (Some ''FF0000'')"
proof (intro conjI)
  show "isTextContainer badgeParagraph"
    by code_simp
  show "children badgeParagraph = [badgeSpan]"
    by (simp add: children_def badgeParagraph_def badgeSpan_def)
  show "map_option (\<lambda>e. hex (parseColor (computedStyle e ''backgroundColor''))) (info badgeSpan)
          = Some (Some ''FF0000'')"
    by code_simp
qed

subsection \<open>The render queue\<close>

lemma sortCompare_le:
  "zIndex a \<noteq> None \<Longrightarrow> zIndex b \<noteq> None \<Longrightarrow> (sortCompare a b \<le> 0) = (itemKey a \<le> itemKey b)"
  by (auto simp: sortCompare_def compareItems_def itemKey_def less_eq_prod_def split: if_splits)

lemma insertItem_insort:
  "zIndex a \<noteq> None \<Longrightarrow> \<forall>b\<in>set bs. zIndex b \<noteq> None \<Longrightarrow> insertItem a bs = insort_key itemKey a bs"
  by (induction bs) (simp_all add: sortCompare_le)

lemma sortQueue_sort_key:
  "\<forall>i\<in>set q. zIndex i \<noteq> None \<Longrightarrow> sortQueue q = sort_key itemKey q"
proof (induction q)
  case Nil
  then show ?case by (simp add: sortQueue_def)
next
  case (Cons a q)
  then have ih: "sortQueue q = sort_key itemKey q" by simp
  have "sortQueue (a # q) = insertItem a (sortQueue q)"
    by (simp add: sortQueue_def)
  also have "\<dots> = insort_key itemKey a (sort_key itemKey q)"
    using Cons.prems by (simp add: ih insertItem_insort)
  finally show ?case by simp
qed

lemma map_sort_key: "map f (sort_key f xs) = sort (map f xs)"
  by (rule properties_for_sort [symmetric]) simp_all

lemma itemKey_le_iff:
  "zIndex a \<noteq> None \<Longrightarrow> zIndex b \<noteq> None \<Longrightarrow>
   (itemKey a \<le> itemKey b) = (the (zIndex a) < the (zIndex b) \<or> (zIndex a = zIndex b \<and> domOrder a \<le> domOrder b))"
  by (auto simp: itemKey_def less_eq_prod_def)

text \<open>
  C4: on a queue whose items all have a number as zIndex, the sort of \<open>processSlide\<close>
  is the stable sort by (zIndex, domOrder): the result is a permutation of the
  accumulated list, ordered by zIndex and, among equal zIndex, by domOrder; items of
  the same key keep their order; the order of the keys does not depend on the order
  of insertion; a computed z-index of \<open>auto\<close> gives zIndex 0; and the slide is the
  sorted accumulated list.
\<close>

theorem sortQueue_stable_sort:
  assumes num: "\<forall>i\<in>set q. zIndex i \<noteq> None"
  shows "sortQueue q = sort_key itemKey q \<and>
         mset (sortQueue q) = mset q \<and>
         sorted_wrt (\<lambda>a b. the (zIndex a) < the (zIndex b) \<or>
                            (zIndex a = zIndex b \<and> domOrder a \<le> domOrder b)) (sortQueue q) \<and>
         (\<forall>k. filter (\<lambda>i. itemKey i = k) (sortQueue q) = filter (\<lambda>i. itemKey i = k) q) \<and>
         (\<forall>q'. mset q' = mset q \<longrightarrow> map itemKey (sortQueue q') = map itemKey (sortQueue q)) \<and>
         (st ''zIndex'' = ''auto'' \<longrightarrow> zIndexOf st = Some 0) \<and>
         processSlide ev parent (Element e cs) = map_sum id sortQueue (accumulated ev parent e cs)"
proof (intro conjI allI impI)
  show eq: "sortQueue q = sort_key itemKey q"
    using num by (rule sortQueue_sort_key)
  show "mset (sortQueue q) = mset q"
    by (simp add: eq)
  have "sorted (map itemKey (sort_key itemKey q))"
    by (rule sorted_sort_key)
  then have srt: "sorted_wrt (\<lambda>a b. itemKey a \<le> itemKey b) (sortQueue q)"
    by (simp add: eq sorted_map)
  have nn: "\<forall>i\<in>set (sortQueue q). zIndex i \<noteq> None"
    using num by (simp add: eq)
  show "sorted_wrt (\<lambda>a b. the (zIndex a) < the (zIndex b) \<or>
                            (zIndex a = zIndex b \<and> domOrder a \<le> domOrder b)) (sortQueue q)"
  proof (rule sorted_wrt_mono_rel [OF _ srt])
    fix a b
    assume "a \<in> set (sortQueue q)" "b \<in> set (sortQueue q)" "itemKey a \<le> itemKey b"
    with nn show "the (zIndex a) < the (zIndex b) \<or>
                  (zIndex a = zIndex b \<and> domOrder a \<le> domOrder b)"
      by (simp add: itemKey_le_iff)
  qed
  show "filter (\<lambda>i. itemKey i = k) (sortQueue q) = filter (\<lambda>i. itemKey i = k) q" for k
    by (simp add: eq sort_key_stable)
  show "map itemKey (sortQueue q') = map itemKey (sortQueue q)" if m: "mset q' = mset q" for q'
  proof -
    from m have "set q' = set q" by (rule mset_eq_setD)
    with num have "sortQueue q' = sort_key itemKey q'"
      by (simp add: sortQueue_sort_key)
    moreover from m have "mset (map itemKey q') = mset (map itemKey q)" by simp
    then have "sort (map itemKey q') = sort (map itemKey q)"
      by (simp add: properties_for_sort)
    ultimately show ?thesis
      by (simp add: eq map_sort_key)
  qed
  show "zIndexOf st = Some 0" if "st ''zIndex'' = ''auto''"
    using that by (simp add: zIndexOf_def)
  show "processSlide ev parent (Element e cs) = map_sum id sortQueue (accumulated ev parent e cs)"
    by (cases "accumulated ev parent e cs") simp_all
qed

theorem sortQueue_stable_sort_witness:
  "list_all (\<lambda>i. zIndex i \<noteq> None) unsortedQueue \<and>
   sortQueue unsortedQueue = [imageAt (- 1) 5, imageAt 0 1, imageAt 0 2]"
proof -
  have h: "\<forall>i\<in>set unsortedQueue. zIndex i \<noteq> None"
    by (simp add: unsortedQueue_def imageAt_def imageItem_def)
  from sortQueue_stable_sort [OF h] have "sortQueue unsortedQueue = sort_key itemKey unsortedQueue"
    by (rule conjunct1)
  also have "\<dots> = [imageAt (- 1) 5, imageAt 0 1, imageAt 0 2]"
    by (simp add: unsortedQueue_def itemKey_def imageAt_def imageItem_def less_eq_prod_def)
  finally show ?thesis
    using h by (simp add: list_all_iff)
qed

subsection \<open>Skipped nodes\<close>

text \<open>
  C6: for a node with \<open>display: none\<close>, \<open>visibility: hidden\<close> or \<open>opacity: 0\<close>, and for
  a node whose bounding box has zero width or zero height, \<open>createRenderItem\<close> returns
  \<open>null\<close> (before the transform is read and any geometry computed), so the traversal
  adds no item for the node and goes on to its children.
\<close>

theorem createRenderItem_skips_hidden:
  assumes "computedStyle e ''display'' = ''none'' \<or> computedStyle e ''visibility'' = ''hidden'' \<or>
           computedStyle e ''opacity'' = ''0'' \<or> rectWidth e = 0 \<or> rectHeight e = 0"
  shows "createRenderItem ev parent (Element e cs) config d = Inr None \<and>
         collect ev config parent (Element e cs) (q, k) = collectAll ev config (Some e) cs (q, Suc k)"
proof -
  from assms have "createRenderItem ev parent (Element e cs) config k' = Inr None" for k'
    by (auto simp: hidden_def Let_def)
  then show ?thesis
    by simp
qed

theorem createRenderItem_skips_hidden_witness:
  "computedStyle hiddenDiv ''display'' = ''none'' \<and>
   createRenderItem noBackend None (Element hiddenDiv [TextNode ''x'']) unitConfig 0 = Inr None"
proof -
  have h: "computedStyle hiddenDiv ''display'' = ''none''"
    by (simp add: hiddenDiv_def divOf_def)
  then have "computedStyle hiddenDiv ''display'' = ''none'' \<or>
             computedStyle hiddenDiv ''visibility'' = ''hidden'' \<or>
             computedStyle hiddenDiv ''opacity'' = ''0'' \<or>
             rectWidth hiddenDiv = 0 \<or> rectHeight hiddenDiv = 0"
    by simp
  from createRenderItem_skips_hidden [OF this, of noBackend None "[TextNode ''x'']" unitConfig 0] h
  show ?thesis
    by simp
qed


subsection \<open>Shape kinds\<close>

















lemma parseColor_red: "parseColor ''rgb(255, 0, 0)'' = \<lparr>hex = Some ''FF0000'', opacity = Num 1\<rparr>"
  by code_simp






subsection \<open>The batch of slide roots\<close>







subsection \<open>Shadows\<close>

lemma firstShadow_dropWhile:
  "firstShadow ss sc =
     (case dropWhile skippedEntry ss of
        [] \<Rightarrow> None
      | t # rest \<Rightarrow> map_option (\<lambda>m. shadowOf m sc) (shadowMatch (trim t)))"
  by (induction ss) (auto simp: skippedEntry_def Let_def split: option.splits)

lemma atan2r_bounds: "- pi < atan2r y x \<and> atan2r y x \<le> pi"
proof -
  have b: "- (pi / 2) < arctan (y / x)" "arctan (y / x) < pi / 2"
    using arctan_bounded [of "y / x"] by simp_all
  have p: "0 < pi" by simp
  consider "x > 0" | "x < 0" "y \<ge> 0" | "x < 0" "y < 0" | "x = 0"
    by linarith
  then show ?thesis
  proof cases
    case 1
    then have "atan2r y x = arctan (y / x)" by (simp add: atan2r_def)
    with b pi_gt_zero show ?thesis by linarith
  next
    case 2
    then have "y / x \<le> 0" by (simp add: divide_nonneg_neg)
    then have "arctan (y / x) \<le> 0" by (simp add: arctan_le_zero_iff)
    moreover from 2 have "atan2r y x = arctan (y / x) + pi" by (simp add: atan2r_def)
    ultimately show ?thesis using b pi_gt_zero by linarith
  next
    case 3
    then have "0 < y / x" by (simp add: divide_neg_neg)
    then have "0 < arctan (y / x)" by (simp add: zero_less_arctan_iff)
    moreover from 3 have "atan2r y x = arctan (y / x) - pi" by (simp add: atan2r_def)
    ultimately show ?thesis using b pi_gt_zero by linarith
  next
    case 4
    then have "atan2r y x = pi / 2 \<or> atan2r y x = - (pi / 2) \<or> atan2r y x = 0"
      by (simp add: atan2r_def)
    then show ?thesis using pi_gt_zero by linarith
  qed
qed

lemma specAngle_range: "0 \<le> specAngle x y \<and> specAngle x y < 360"
proof -
  define t where "t = atan2r y x"
  have p: "0 < pi" by simp
  from atan2r_bounds [of y x] have t: "- pi < t" "t \<le> pi" by (simp_all add: t_def)
  define u where "u = t / pi"
  have eq: "t * (180 / pi) = u * 180" by (simp add: u_def)
  from t p have "- 1 < u" "u \<le> 1"
    by (simp_all add: u_def pos_less_divide_eq pos_divide_le_eq)
  then have "- 180 < t * (180 / pi)" "t * (180 / pi) \<le> 180"
    unfolding eq by linarith+
  then show ?thesis
    unfolding specAngle_def t_def [symmetric] by auto
qed

lemma shadowOf_numeric:
  assumes "parseFloat xs = Num x" and "parseFloat ys = Num y" and "parseFloat bs = Num b"
  shows "shadowOf (c, xs, ys, bs) (Num k) =
           \<lparr>shadowType = ''outer'', angle = Num (specAngle x y), blur = Num (b * 0.75 * k),
            offset = Num (sqrt (x * x + y * y) * 0.75 * k),
            shadowColor = orDefault (hex (parseColor c)) ''000000'',
            shadowOpacity = opacity (parseColor c)\<rparr>"
  using assms by (simp add: shadowOf_def Let_def degrees_def specAngle_def not_sum_squares_lt_zero)


lemma sqrt_25: "sqrt 25 = 5"
  by (rule real_sqrt_unique) simp_all

lemma example_split: "splitCommas ''rgba(0,0,0,0.5) 4px 3px 5px'' = [''rgba(0,0,0,0.5) 4px 3px 5px'']"
  by code_simp

lemma example_trim: "trim ''rgba(0,0,0,0.5) 4px 3px 5px'' = ''rgba(0,0,0,0.5) 4px 3px 5px''"
  by code_simp

lemma example_match:
  "shadowMatch ''rgba(0,0,0,0.5) 4px 3px 5px'' = Some (''rgba(0,0,0,0.5)'', ''4'', ''3'', ''5'')"
  by code_simp

lemma example_color: "parseColor ''rgba(0,0,0,0.5)'' = \<lparr>hex = Some ''000000'', opacity = Num (1 / 2)\<rparr>"
  by code_simp

lemma parseFloat_digits: "parseFloat ''4'' = Num 4" "parseFloat ''3'' = Num 3" "parseFloat ''5'' = Num 5"
  "parseFloat ''1'' = Num 1"
  by code_simp+

lemma example_shadow:
  "getVisibleShadow ''rgba(0,0,0,0.5) 4px 3px 5px'' (Num k) =
     Some \<lparr>shadowType = ''outer'', angle = Num (arctan (3 / 4) * (180 / pi)),
           blur = Num (5 * 0.75 * k), offset = Num (5 * 0.75 * k),
           shadowColor = ''000000'', shadowOpacity = Num (1 / 2)\<rparr>"
proof -
  have a: "specAngle 4 3 = arctan (3 / 4) * (180 / pi)"
    by (simp add: specAngle_def atan2r_def not_less zero_le_arctan_iff)
  have "getVisibleShadow ''rgba(0,0,0,0.5) 4px 3px 5px'' (Num k)
          = Some (shadowOf (''rgba(0,0,0,0.5)'', ''4'', ''3'', ''5'') (Num k))"
    by (simp add: getVisibleShadow_def example_split example_trim example_match startsWith_def
          del: shadowMatch.simps)
  also have "shadowOf (''rgba(0,0,0,0.5)'', ''4'', ''3'', ''5'') (Num k) =
     \<lparr>shadowType = ''outer'', angle = Num (arctan (3 / 4) * (180 / pi)),
      blur = Num (5 * 0.75 * k), offset = Num (5 * 0.75 * k),
      shadowColor = ''000000'', shadowOpacity = Num (1 / 2)\<rparr>"
    by (simp add: shadowOf_numeric [OF parseFloat_digits(1) parseFloat_digits(2) parseFloat_digits(3)]
          a sqrt_25 example_color orDefault_def orStr_def)
  finally show ?thesis .
qed


lemma inset_split:
  "splitCommas ''rgb(0, 0, 0) 4px 3px 5px 0px inset, rgb(255, 0, 0) 1px 1px 1px 0px'' =
     [''rgb(0, 0, 0) 4px 3px 5px 0px inset'', '' rgb(255, 0, 0) 1px 1px 1px 0px'']"
  "splitCommas ''rgb(0, 0, 0) 4px 3px 5px 0px inset'' = [''rgb(0, 0, 0) 4px 3px 5px 0px inset'']"
  "splitCommas ''rgb(255, 0, 0) 1px 1px 1px 0px'' = [''rgb(255, 0, 0) 1px 1px 1px 0px'']"
  by code_simp+

lemma inset_not_skipped:
  "\<not> skippedEntry ''rgb(0, 0, 0) 4px 3px 5px 0px inset''"
  "\<not> skippedEntry ''rgb(255, 0, 0) 1px 1px 1px 0px''"
  by code_simp+

lemma inset_trim:
  "trim ''rgb(0, 0, 0) 4px 3px 5px 0px inset'' = ''rgb(0, 0, 0) 4px 3px 5px 0px inset''"
  "trim ''rgb(255, 0, 0) 1px 1px 1px 0px'' = ''rgb(255, 0, 0) 1px 1px 1px 0px''"
  by code_simp+

lemma inset_match:
  "shadowMatch ''rgb(0, 0, 0) 4px 3px 5px 0px inset'' = Some (''rgb(0, 0, 0)'', ''4'', ''3'', ''5'')"
  "shadowMatch ''rgb(255, 0, 0) 1px 1px 1px 0px'' = Some (''rgb(255, 0, 0)'', ''1'', ''1'', ''1'')"
  by code_simp+

lemma parseColor_black: "parseColor ''rgb(0, 0, 0)'' = \<lparr>hex = Some ''000000'', opacity = Num 1\<rparr>"
  by code_simp

lemma shadowOf_color: "shadowColor (shadowOf (c, xs, ys, bs) sc) = orDefault (hex (parseColor c)) ''000000''"
  by (simp add: shadowOf_def Let_def)

text \<open>
  C3, as stated, fails: nothing in \<open>getVisibleShadow\<close> looks for \<open>inset\<close>. An inset
  entry that comes first is converted like an outer one: of a black inset shadow
  followed by a red outer one, the result has the colour of the inset entry.
\<close>

theorem getVisibleShadow_inset_counterexample:
  "map_option shadowColor
     (getVisibleShadow ''rgb(0, 0, 0) 4px 3px 5px 0px inset, rgb(255, 0, 0) 1px 1px 1px 0px'' (Num 1))
     = Some ''000000'' \<and>
   map_option shadowColor (getVisibleShadow ''rgb(255, 0, 0) 1px 1px 1px 0px'' (Num 1)) = Some ''FF0000''"
  by (simp add: getVisibleShadow_def firstShadow_dropWhile inset_split inset_not_skipped inset_trim
        inset_match shadowOf_color parseColor_black parseColor_red orDefault_def orStr_def
        del: shadowMatch.simps splitCommas.simps)

text \<open>
  C3 (amended): the result is the descriptor of the first entry of the list that is
  not passed over, where an entry is passed over when, trimmed, it begins with
  \<open>rgba(0, 0, 0, 0)\<close> or the pattern of a colour and three pixel lengths does not
  match in it (an inset entry is not passed over). For numbers \<open>x\<close>, \<open>y\<close>, \<open>blur\<close> and a
  scale \<open>k\<close>, the distance is \<open>sqrt(x\<^sup>2 + y\<^sup>2)\<close>, the angle is \<open>atan2(y, x)\<close> in degrees
  with 360 added when negative, which lies in [0, 360), and blur and distance are
  scaled by \<open>0.75 k\<close>. For \<open>rgba(0,0,0,0.5) 4px 3px 5px\<close> the distance is 5 and the
  angle is \<open>arctan(3/4)\<close> in degrees.
\<close>

theorem getVisibleShadow_first_unskipped:
  "getVisibleShadow s sc =
     (if s = [] \<or> s = ''none'' then None
      else case dropWhile skippedEntry (splitCommas s) of
             [] \<Rightarrow> None
           | t # rest \<Rightarrow> map_option (\<lambda>m. shadowOf m sc) (shadowMatch (trim t))) \<and>
   (\<not> skippedEntry t \<longrightarrow> shadowMatch (trim t) \<noteq> None) \<and>
   (parseFloat xs = Num x \<longrightarrow> parseFloat ys = Num y \<longrightarrow> parseFloat bs = Num b \<longrightarrow>
      shadowOf (c, xs, ys, bs) (Num k) =
        \<lparr>shadowType = ''outer'', angle = Num (specAngle x y), blur = Num (b * 0.75 * k),
         offset = Num (sqrt (x * x + y * y) * 0.75 * k),
         shadowColor = orDefault (hex (parseColor c)) ''000000'',
         shadowOpacity = opacity (parseColor c)\<rparr> \<and>
      0 \<le> specAngle x y \<and> specAngle x y < 360) \<and>
   getVisibleShadow ''rgba(0,0,0,0.5) 4px 3px 5px'' (Num k) =
     Some \<lparr>shadowType = ''outer'', angle = Num (arctan (3 / 4) * (180 / pi)),
           blur = Num (5 * 0.75 * k), offset = Num (5 * 0.75 * k),
           shadowColor = ''000000'', shadowOpacity = Num (1 / 2)\<rparr>"
proof (intro conjI impI)
  show "getVisibleShadow s sc =
     (if s = [] \<or> s = ''none'' then None
      else case dropWhile skippedEntry (splitCommas s) of
             [] \<Rightarrow> None
           | t # rest \<Rightarrow> map_option (\<lambda>m. shadowOf m sc) (shadowMatch (trim t)))"
    by (simp add: getVisibleShadow_def firstShadow_dropWhile)
  show "shadowMatch (trim t) \<noteq> None" if "\<not> skippedEntry t"
    using that by (simp add: skippedEntry_def)
  show "getVisibleShadow ''rgba(0,0,0,0.5) 4px 3px 5px'' (Num k) =
     Some \<lparr>shadowType = ''outer'', angle = Num (arctan (3 / 4) * (180 / pi)),
           blur = Num (5 * 0.75 * k), offset = Num (5 * 0.75 * k),
           shadowColor = ''000000'', shadowOpacity = Num (1 / 2)\<rparr>"
    by (rule example_shadow)
next
  assume "parseFloat xs = Num x" "parseFloat ys = Num y" "parseFloat bs = Num b"
  then show "shadowOf (c, xs, ys, bs) (Num k) =
        \<lparr>shadowType = ''outer'', angle = Num (specAngle x y), blur = Num (b * 0.75 * k),
         offset = Num (sqrt (x * x + y * y) * 0.75 * k),
         shadowColor = orDefault (hex (parseColor c)) ''000000'',
         shadowOpacity = opacity (parseColor c)\<rparr>"
    by (rule shadowOf_numeric)
  show "0 \<le> specAngle x y" "specAngle x y < 360"
    using specAngle_range [of x y] by simp_all
qed

theorem getVisibleShadow_first_unskipped_witness:
  "\<not> skippedEntry ''rgb(0, 0, 0) 4px 3px 5px 0px inset'' \<and>
   parseFloat ''4'' = Num 4 \<and> parseFloat ''3'' = Num 3 \<and> parseFloat ''5'' = Num 5 \<and>
   getVisibleShadow ''rgb(0, 0, 0) 4px 3px 5px 0px inset'' (Num 1) =
     Some \<lparr>shadowType = ''outer'', angle = Num (specAngle 4 3), blur = Num (15 / 4),
           offset = Num (15 / 4), shadowColor = ''000000'', shadowOpacity = Num 1\<rparr> \<and>
   0 \<le> specAngle 4 3 \<and> specAngle 4 3 < 360"
proof -
  note T = getVisibleShadow_first_unskipped
    [where s = "''rgb(0, 0, 0) 4px 3px 5px 0px inset''" and sc = "Num 1" and xs = "''4''"
       and ys = "''3''" and bs = "''5''" and x = 4 and y = 3 and b = 5 and k = 1
       and c = "''rgb(0, 0, 0)''"]
  from T have sel: "getVisibleShadow ''rgb(0, 0, 0) 4px 3px 5px 0px inset'' (Num 1) =
      (case dropWhile skippedEntry (splitCommas ''rgb(0, 0, 0) 4px 3px 5px 0px inset'') of
         [] \<Rightarrow> None
       | t # rest \<Rightarrow> map_option (\<lambda>m. shadowOf m (Num 1)) (shadowMatch (trim t)))"
    by simp
  from T parseFloat_digits have conv:
    "shadowOf (''rgb(0, 0, 0)'', ''4'', ''3'', ''5'') (Num 1) =
        \<lparr>shadowType = ''outer'', angle = Num (specAngle 4 3), blur = Num (5 * 0.75 * 1),
         offset = Num (sqrt (4 * 4 + 3 * 3) * 0.75 * 1),
         shadowColor = orDefault (hex (parseColor ''rgb(0, 0, 0)'')) ''000000'',
         shadowOpacity = opacity (parseColor ''rgb(0, 0, 0)'')\<rparr>"
    and rng: "0 \<le> specAngle 4 3" "specAngle 4 3 < 360"
    by blast+
  have "getVisibleShadow ''rgb(0, 0, 0) 4px 3px 5px 0px inset'' (Num 1) =
          Some (shadowOf (''rgb(0, 0, 0)'', ''4'', ''3'', ''5'') (Num 1))"
    unfolding sel
    by (simp add: inset_split inset_not_skipped inset_trim inset_match
          del: shadowMatch.simps splitCommas.simps)
  then have "getVisibleShadow ''rgb(0, 0, 0) 4px 3px 5px 0px inset'' (Num 1) =
     Some \<lparr>shadowType = ''outer'', angle = Num (specAngle 4 3), blur = Num (15 / 4),
           offset = Num (15 / 4), shadowColor = ''000000'', shadowOpacity = Num 1\<rparr>"
    unfolding conv by (simp add: sqrt_25 parseColor_black orDefault_def orStr_def)
  with rng inset_not_skipped(1) parseFloat_digits show ?thesis
    by simp
qed


subsection \<open>Gradients\<close>

text \<open>What holds of the gradient parser: the example of the specification, the four
  direction keywords and the default axis, and, for a list of at least two stops, the
  offsets of the stops without one of their own, which run from 0% to 100%.\<close>

lemma gradient_example:
  "parseGradient ''linear-gradient(to right, #000 0%, #fff 100%)'' =
     Some \<lparr>x1 = ''0%'', y1 = ''0%'', x2 = ''100%'', y2 = ''0%'',
           stops = [\<lparr>stopOffset = ''0%'', stopColor = ''#000'', stopOpacity = ''1''\<rparr>,
                    \<lparr>stopOffset = ''100%'', stopColor = ''#fff'', stopOpacity = ''1''\<rparr>]\<rparr>"
  by code_simp

lemma gradient_three_stops:
  "map_option (map stopOffset \<circ> stops) (parseGradient ''linear-gradient(red, rgba(0, 128, 0, 0.5), blue)'')
     = Some [''0%'', ''50%'', ''100%'']"
  by code_simp

lemma gradient_axis:
  "(x1 (gradientOf content), y1 (gradientOf content), x2 (gradientOf content), y2 (gradientOf content)) =
     (let p0 = map trim (splitCommas content) ! 0 in
      if includesStr p0 ''to right'' then (''0%'', ''0%'', ''100%'', ''0%'')
      else if includesStr p0 ''to left'' then (''100%'', ''0%'', ''0%'', ''0%'')
      else if includesStr p0 ''to top'' then (''0%'', ''100%'', ''0%'', ''0%'')
      else if includesStr p0 ''to bottom'' then (''0%'', ''0%'', ''0%'', ''100%'')
      else (''0%'', ''0%'', ''0%'', ''100%''))"
  by (simp add: gradientOf_def Let_def)

lemma stopOf_offset:
  "stopOffset (stopOf n idx part) =
     (case posMatch part of Some (c, off) \<Rightarrow> off | None \<Rightarrow> evenOffset idx n)"
  by (simp add: stopOf_def Let_def split: option.splits prod.splits)

lemma evenOffset_rounded:
  assumes "2 \<le> n"
  shows "evenOffset idx n = decDigits \<lfloor>real idx * 100 / (real n - 1) + 1 / 2\<rfloor> @ ''%''"
proof -
  from assms have nz: "real n - 1 \<noteq> 0" by simp
  have nonneg: "0 \<le> real idx / (real n - 1) * 100"
    using assms by simp
  then have "\<not> of_int \<lfloor>real idx / (real n - 1) * 100 + 1 / 2\<rfloor> < (0 :: real)"
    by (simp add: not_less)
  with nz show ?thesis
    by (simp add: evenOffset_def)
qed

lemma evenOffset_ends:
  assumes "2 \<le> n"
  shows "evenOffset 0 n = ''0%''" and "evenOffset (n - 1) n = ''100%''"
proof -
  have z: "\<lfloor>(1::real) / 2\<rfloor> = 0" by simp
  have h: "\<lfloor>(100::real) + 1 / 2\<rfloor> = 100" by linarith
  have d0: "decDigits 0 = ''0''" by (simp add: decDigits.simps hexChar_def)
  have d100: "decDigits 100 = ''100''" by code_simp
  show "evenOffset 0 n = ''0%''"
    by (simp add: evenOffset_rounded [OF assms] z d0)
  define m where "m = real n - 1"
  from assms have m: "m \<noteq> 0" "real (n - 1) = m"
    by (simp_all add: m_def of_nat_diff)
  have "evenOffset (n - 1) n = decDigits \<lfloor>m * 100 / m + 1 / 2\<rfloor> @ ''%''"
    unfolding evenOffset_rounded [OF assms] m(2) m_def ..
  also from m(1) have "m * 100 / m = 100"
    by simp
  finally show "evenOffset (n - 1) n = ''100%''"
    by (simp only: h d100) simp
qed

text \<open>
  C5 does not hold of the code for a gradient of one stop: the offset of a stop
  without one of its own is \<open>Math.round((idx / (stopParts.length - 1)) * 100)\<close>, which
  for the only stop of a list divides 0 by 0, and the stop is printed with the offset
  \<open>NaN%\<close>, not with an offset in [0%, 100%].
\<close>

theorem parseGradient_single_stop:
  "parseGradient ''linear-gradient(red)'' =
     Some \<lparr>x1 = ''0%'', y1 = ''0%'', x2 = ''0%'', y2 = ''100%'',
           stops = [\<lparr>stopOffset = ''NaN%'', stopColor = ''red'', stopOpacity = ''1''\<rparr>]\<rparr>"
  by code_simp

end
